theory Spec2Isabelle
  imports Complex_Main
begin

section \<open>Linear shape fitting (include/eos/fitting/linear_shape_fitting.hpp)\<close>

text \<open>
  A shallow embedding of \<^verbatim>\<open>fit_shape_to_landmarks_linear_multi\<close> and of its single-image
  wrapper \<^verbatim>\<open>fit_shape_to_landmarks_linear\<close>.

  Numbers: every \<^verbatim>\<open>float\<close> of the source is a \<^typ>\<open>real\<close> here, so all statements below are
  statements under exact arithmetic; rounding is outside this development.

  Failures: \<^verbatim>\<open>assert\<close> is taken as active (a build without \<^verbatim>\<open>NDEBUG\<close>); a failed size
  assertion is the value \<open>Inl InputCardinalityMismatch\<close>. An element access outside a
  container (undefined behaviour in C++, an assertion inside Eigen) is the value
  \<open>Inl (OutOfBounds c)\<close>, where \<open>c\<close> names the container. A division of \<open>1.0f\<close> by zero
  (an IEEE infinity that turns the normal equations into infinities and NaNs) is \<open>Inl NonFinite\<close>.

  Indices: the vertex ids and the number of coefficients to fit are \<^verbatim>\<open>int\<close> in the source and
  natural numbers here; negative values, which index before the start of a container, are
  outside this development.
\<close>

subsection \<open>Data\<close>

type_synonym Vec2f = "real \<times> real"
type_synonym VectorXf = "real list"

text \<open>A dense Eigen matrix is the list of its rows.\<close>
type_synonym MatrixXf = "real list list"

text \<open>\<^verbatim>\<open>Eigen::Triplet<float>(row, col, value)\<close>\<close>
type_synonym Triplet = "nat \<times> nat \<times> real"

text \<open>\<^verbatim>\<open>cv::Mat\<close> of floats: its \<^verbatim>\<open>rows\<close>, its \<^verbatim>\<open>cols\<close> and the element read \<^verbatim>\<open>at<float>(x, y)\<close>.\<close>
record cv_Mat =
  rows :: nat
  cols :: nat
  at_float :: "nat \<Rightarrow> nat \<Rightarrow> real"

text \<open>
  Modelled from the spec: the class \<^verbatim>\<open>PcaModel\<close> (eos/morphablemodel/PcaModel.hpp) is not among
  the sources. The spec's StatisticalModel has a mean vector of length \<open>3V\<close> and a basis matrix of
  \<open>3V\<close> rows and \<open>K\<close> columns, \<open>K\<close> the number of principal components, stored
  \<open>[x y z x y z ...]\<close>.
\<close>
record PcaModel =
  mean :: VectorXf
  rescaled_pca_basis :: MatrixXf
  num_principal_components :: nat

text \<open>Only the shape model of a \<^verbatim>\<open>MorphableModel\<close> is read by the fitting functions.\<close>
record MorphableModel =
  shape_model :: PcaModel

datatype container = Base_face_list | Base_face_vector | Pca_basis_rows | Pca_basis_cols | P_matrix

datatype error = InputCardinalityMismatch | OutOfBounds container | NonFinite

subsection \<open>The accessors of the shape model\<close>

text \<open>Modelled from the spec: \<^verbatim>\<open>get_shape_model\<close>, \<^verbatim>\<open>get_mean\<close> and
  \<^verbatim>\<open>get_num_principal_components\<close> of the absent model classes are the plain field reads.\<close>
definition get_shape_model :: "MorphableModel \<Rightarrow> PcaModel" where
  "get_shape_model morphable_model = shape_model morphable_model"

definition get_mean :: "PcaModel \<Rightarrow> VectorXf" where
  "get_mean m = mean m"

definition get_num_principal_components :: "PcaModel \<Rightarrow> nat" where
  "get_num_principal_components m = num_principal_components m"

text \<open>Modelled from the spec: \<^verbatim>\<open>get_rescaled_pca_basis_at_point\<close> of the absent \<^verbatim>\<open>PcaModel\<close>;
  the spec's \<open>basis_rows_at(vertex_id)\<close> is the block of the three basis rows of the vertex,
  rows \<open>3 * vertex_id\<close> to \<open>3 * vertex_id + 2\<close>.\<close>
definition get_rescaled_pca_basis_at_point :: "PcaModel \<Rightarrow> nat \<Rightarrow> error + MatrixXf" where
  "get_rescaled_pca_basis_at_point m vertex_id =
     (if 3 * vertex_id + 3 \<le> length (rescaled_pca_basis m)
      then Inr [rescaled_pca_basis m ! (3 * vertex_id),
                rescaled_pca_basis m ! (3 * vertex_id + 1),
                rescaled_pca_basis m ! (3 * vertex_id + 2)]
      else Inl (OutOfBounds Pca_basis_rows))"

subsection \<open>The loops over the landmarks of one image\<close>

text \<open>
  Lines 120-124. The loop runs \<open>i\<close> over \<open>0 ..< num_landmarks\<close> and reads \<open>vertex_ids[k][i]\<close>;
  after the assertion of line 108 that is a traversal of \<open>vertex_ids[k]\<close>. Each step writes the
  three basis rows of the vertex, cut to \<open>num_coeffs_to_fit\<close> columns, at the running row index
  and advances it by four. \<open>basis_rows_.block(0, 0, 3, num_coeffs_to_fit)\<close> needs
  \<open>num_coeffs_to_fit\<close> to be at most the number of columns of the basis.
\<close>
fun fill_V_hat_h :: "PcaModel \<Rightarrow> nat \<Rightarrow> nat list \<Rightarrow> MatrixXf \<times> nat \<Rightarrow> error + MatrixXf \<times> nat" where
  "fill_V_hat_h m num_coeffs_to_fit [] (V_hat_h, V_hat_h_row_index) =
     Inr (V_hat_h, V_hat_h_row_index)"
| "fill_V_hat_h m num_coeffs_to_fit (vertex_id # vertex_ids) (V_hat_h, V_hat_h_row_index) =
     (case get_rescaled_pca_basis_at_point m vertex_id of
        Inl e \<Rightarrow> Inl e
      | Inr basis_rows \<Rightarrow>
          if \<not> num_coeffs_to_fit \<le> get_num_principal_components m
          then Inl (OutOfBounds Pca_basis_cols)
          else fill_V_hat_h m num_coeffs_to_fit vertex_ids
                 (V_hat_h[V_hat_h_row_index := take num_coeffs_to_fit (basis_rows ! 0),
                          V_hat_h_row_index + 1 := take num_coeffs_to_fit (basis_rows ! 1),
                          V_hat_h_row_index + 2 := take num_coeffs_to_fit (basis_rows ! 2)],
                  V_hat_h_row_index + 4))"

text \<open>Lines 128-132: the entries of one camera matrix, placed at block \<open>P_index\<close>.\<close>
definition camera_triplets :: "cv_Mat \<Rightarrow> nat \<Rightarrow> Triplet list" where
  "camera_triplets affine_camera_matrix P_index =
     concat (map (\<lambda>x. map (\<lambda>y. (3 * P_index + x, 4 * P_index + y, at_float affine_camera_matrix x y))
                            [0..<cols affine_camera_matrix])
                 [0..<rows affine_camera_matrix])"

text \<open>Lines 127-134: \<open>num_landmarks\<close> rounds, each appending the camera's triplets.\<close>
fun fill_P :: "cv_Mat \<Rightarrow> nat \<Rightarrow> Triplet list \<times> nat \<Rightarrow> Triplet list \<times> nat" where
  "fill_P affine_camera_matrix 0 (P_coefficients, P_index) = (P_coefficients, P_index)"
| "fill_P affine_camera_matrix (Suc num_landmarks) (P_coefficients, P_index) =
     fill_P affine_camera_matrix num_landmarks
       (P_coefficients @ camera_triplets affine_camera_matrix P_index, P_index + 1)"

text \<open>Lines 139-144: a traversal of \<open>landmarks[k]\<close>.\<close>
fun fill_y :: "Vec2f list \<Rightarrow> VectorXf \<times> nat \<Rightarrow> VectorXf \<times> nat" where
  "fill_y [] (y, y_index) = (y, y_index)"
| "fill_y (landmark # landmarks) (y, y_index) =
     fill_y landmarks (y[3 * y_index := fst landmark, 3 * y_index + 1 := snd landmark], y_index + 1)"

text \<open>Lines 147-153: a traversal of \<open>vertex_ids[k]\<close>, reading three entries of the base face.\<close>
fun fill_v_bar :: "VectorXf \<Rightarrow> nat list \<Rightarrow> VectorXf \<times> nat \<Rightarrow> error + VectorXf \<times> nat" where
  "fill_v_bar base_face_k [] (v_bar, v_bar_index) = Inr (v_bar, v_bar_index)"
| "fill_v_bar base_face_k (vertex_id # vertex_ids) (v_bar, v_bar_index) =
     (if \<not> vertex_id * 3 + 2 < length base_face_k then Inl (OutOfBounds Base_face_vector)
      else fill_v_bar base_face_k vertex_ids
             (v_bar[4 * v_bar_index := base_face_k ! (vertex_id * 3),
                    4 * v_bar_index + 1 := base_face_k ! (vertex_id * 3 + 1),
                    4 * v_bar_index + 2 := base_face_k ! (vertex_id * 3 + 2)],
              v_bar_index + 1))"

subsection \<open>The loop over the images\<close>

record build_state =
  V_hat_h :: MatrixXf
  V_hat_h_row_index :: nat
  P_coefficients :: "Triplet list"
  P_index :: nat
  y :: VectorXf
  y_index :: nat
  v_bar :: VectorXf
  v_bar_index :: nat

text \<open>
  Lines 83-102: the matrices and vectors as they are allocated before the loop, \<open>V_hat_h\<close> all
  zero, \<open>y\<close> and \<open>v_bar\<close> all one, no triplet yet, and the running indices at zero.
\<close>
definition initial_state :: "nat \<Rightarrow> nat \<Rightarrow> build_state" where
  "initial_state num_coeffs_to_fit total_num_landmarks_dimension =
     \<lparr>V_hat_h = replicate (4 * total_num_landmarks_dimension) (replicate num_coeffs_to_fit 0),
      V_hat_h_row_index = 0,
      P_coefficients = [], P_index = 0,
      y = replicate (3 * total_num_landmarks_dimension) 1, y_index = 0,
      v_bar = replicate (4 * total_num_landmarks_dimension) 1, v_bar_index = 0\<rparr>"

text \<open>
  Lines 106-154, the body of the loop for image \<open>k\<close>. \<open>base_face\<close> is the function's own copy of
  the argument (passed by value); the assignment of line 114 changes entry \<open>k\<close> of that copy,
  which only round \<open>k\<close> reads, so the round works on the local \<open>base_face_k\<close>.
  \<open>affine_camera_matrix\<close>, \<open>landmarks\<close> and \<open>vertex_ids\<close> have \<open>num_images\<close> entries after
  line 64; \<open>base_face\<close> is not checked, and \<open>base_face[k]\<close> is an access outside the vector
  when it is shorter.
\<close>
definition process_image ::
  "MorphableModel \<Rightarrow> nat \<Rightarrow> cv_Mat list \<Rightarrow> Vec2f list list \<Rightarrow> nat list list \<Rightarrow> VectorXf list
     \<Rightarrow> nat \<Rightarrow> build_state \<Rightarrow> error + build_state" where
  "process_image morphable_model num_coeffs_to_fit affine_camera_matrix landmarks vertex_ids
       base_face k st =
     (if length (landmarks ! k) \<noteq> length (vertex_ids ! k) then Inl InputCardinalityMismatch
      else let num_landmarks = length (landmarks ! k) in
        if \<not> k < length base_face then Inl (OutOfBounds Base_face_list)
        else let base_face_k =
                   (if length (base_face ! k) = 0 then get_mean (get_shape_model morphable_model)
                    else base_face ! k) in
          case fill_V_hat_h (get_shape_model morphable_model) num_coeffs_to_fit (vertex_ids ! k)
                 (V_hat_h st, V_hat_h_row_index st) of
            Inl e \<Rightarrow> Inl e
          | Inr (V, V_row) \<Rightarrow>
              (case fill_P (affine_camera_matrix ! k) num_landmarks (P_coefficients st, P_index st) of
                 (P_c, P_i) \<Rightarrow>
              (case fill_y (landmarks ! k) (y st, y_index st) of
                 (y', y_i) \<Rightarrow>
              (case fill_v_bar base_face_k (vertex_ids ! k) (v_bar st, v_bar_index st) of
                 Inl e \<Rightarrow> Inl e
               | Inr (v_bar', v_bar_i) \<Rightarrow>
                   Inr \<lparr>V_hat_h = V, V_hat_h_row_index = V_row,
                        P_coefficients = P_c, P_index = P_i,
                        y = y', y_index = y_i,
                        v_bar = v_bar', v_bar_index = v_bar_i\<rparr>))))"

text \<open>Line 105: \<open>for (int k = 0; k < num_images; ++k)\<close>, from round \<open>k\<close> on.\<close>
function image_loop ::
  "MorphableModel \<Rightarrow> nat \<Rightarrow> cv_Mat list \<Rightarrow> Vec2f list list \<Rightarrow> nat list list \<Rightarrow> VectorXf list
     \<Rightarrow> nat \<Rightarrow> nat \<Rightarrow> build_state \<Rightarrow> error + build_state" where
  "image_loop morphable_model num_coeffs_to_fit affine_camera_matrix landmarks vertex_ids
       base_face num_images k st =
     (if k < num_images
      then (case process_image morphable_model num_coeffs_to_fit affine_camera_matrix landmarks
                   vertex_ids base_face k st of
              Inl e \<Rightarrow> Inl e
            | Inr st' \<Rightarrow> image_loop morphable_model num_coeffs_to_fit affine_camera_matrix landmarks
                           vertex_ids base_face num_images (k + 1) st')
      else Inr st)"
  by pat_completeness auto
termination
  by (relation "measure (\<lambda>(_, _, _, _, _, _, num_images, k, _). num_images - k)") auto

subsection \<open>The sparse matrix and the products\<close>

text \<open>\<open>P.setFromTriplets\<close> (line 157) needs every triplet inside the \<open>nrows \<times> ncols\<close> matrix.\<close>
definition triplets_in_range :: "nat \<Rightarrow> nat \<Rightarrow> Triplet list \<Rightarrow> bool" where
  "triplets_in_range nrows ncols ts = list_all (\<lambda>(r, c, v). r < nrows \<and> c < ncols) ts"

text \<open>The coefficient \<open>(i, j)\<close> of the matrix set from the triplets: entries at the same place add up.\<close>
definition sparse_coeff :: "Triplet list \<Rightarrow> nat \<Rightarrow> nat \<Rightarrow> real" where
  "sparse_coeff ts i j = sum_list (map (\<lambda>(r, c, v). if r = i \<and> c = j then v else 0) ts)"

text \<open>\<open>P * V_hat_h\<close>: a sparse \<open>nrows \<times> ncols\<close> matrix times a dense one of \<open>n\<close> columns.\<close>
definition sparse_times_dense :: "nat \<Rightarrow> nat \<Rightarrow> nat \<Rightarrow> Triplet list \<Rightarrow> MatrixXf \<Rightarrow> MatrixXf" where
  "sparse_times_dense nrows ncols n ts V =
     map (\<lambda>i. map (\<lambda>c. \<Sum>j\<leftarrow>[0..<ncols]. sparse_coeff ts i j * V ! j ! c) [0..<n]) [0..<nrows]"

text \<open>\<open>P * v_bar\<close>\<close>
definition sparse_times_vector :: "nat \<Rightarrow> nat \<Rightarrow> Triplet list \<Rightarrow> VectorXf \<Rightarrow> VectorXf" where
  "sparse_times_vector nrows ncols ts v =
     map (\<lambda>i. \<Sum>j\<leftarrow>[0..<ncols]. sparse_coeff ts i j * v ! j) [0..<nrows]"

text \<open>\<open>A.transpose() * Omega.asDiagonal() * A + lambda * Identity(n, n)\<close> (line 162)\<close>
definition AtOmegaAReg_of :: "nat \<Rightarrow> MatrixXf \<Rightarrow> VectorXf \<Rightarrow> real \<Rightarrow> MatrixXf" where
  "AtOmegaAReg_of n A Omega lambda =
     map (\<lambda>i. map (\<lambda>j. (\<Sum>r\<leftarrow>[0..<length A]. A ! r ! i * Omega ! r * A ! r ! j)
                        + lambda * (if i = j then 1 else 0)) [0..<n]) [0..<n]"

text \<open>\<open>-A.transpose() * Omega.asDiagonal() * b\<close> (line 163)\<close>
definition rhs_of :: "nat \<Rightarrow> MatrixXf \<Rightarrow> VectorXf \<Rightarrow> VectorXf \<Rightarrow> VectorXf" where
  "rhs_of n A Omega b = map (\<lambda>i. - (\<Sum>r\<leftarrow>[0..<length A]. A ! r ! i * Omega ! r * b ! r)) [0..<n]"

subsection \<open>The fitting functions\<close>

text \<open>
  Line 94: the sum of the squared standard deviations; \<open>sqrt 3\<close> pixels and \<open>0\<close> when not given.
\<close>
definition sigma_squared_2D_of :: "real option \<Rightarrow> real option \<Rightarrow> real" where
  "sigma_squared_2D_of detector_standard_deviation model_standard_deviation =
     (case detector_standard_deviation of None \<Rightarrow> sqrt 3 | Some s \<Rightarrow> s)\<^sup>2
     + (case model_standard_deviation of None \<Rightarrow> 0 | Some s \<Rightarrow> s)\<^sup>2"

text \<open>
  \<^verbatim>\<open>fit_shape_to_landmarks_linear_multi\<close>, lines 61-169. The first argument stands for
  \<open>M.colPivHouseholderQr().solve(r)\<close> of Eigen, a library routine outside the repository: it is
  total (it returns a vector for every matrix and right-hand side) and is a parameter here.
  With a zero variance and at least one landmark, \<open>Omega\<close> holds infinities and the sums of
  line 162 are not finite.
\<close>
definition fit_shape_to_landmarks_linear_multi ::
  "(MatrixXf \<Rightarrow> VectorXf \<Rightarrow> VectorXf) \<Rightarrow> MorphableModel \<Rightarrow> cv_Mat list \<Rightarrow> Vec2f list list
     \<Rightarrow> nat list list \<Rightarrow> VectorXf list \<Rightarrow> real \<Rightarrow> nat option \<Rightarrow> real option \<Rightarrow> real option
     \<Rightarrow> error + VectorXf" where
  "fit_shape_to_landmarks_linear_multi solve morphable_model affine_camera_matrix landmarks
       vertex_ids base_face lambda num_coefficients_to_fit detector_standard_deviation
       model_standard_deviation =
     (if \<not> (length affine_camera_matrix = length landmarks \<and> length landmarks = length vertex_ids)
      then Inl InputCardinalityMismatch
      else if length landmarks \<noteq> length vertex_ids then Inl InputCardinalityMismatch
      else
        let num_coeffs_to_fit =
              (case num_coefficients_to_fit of
                 None \<Rightarrow> get_num_principal_components (get_shape_model morphable_model)
               | Some n \<Rightarrow> n);
            num_images = length affine_camera_matrix;
            lambda' = lambda * real num_images;
            total_num_landmarks_dimension = sum_list (map length landmarks);
            sigma_squared_2D =
              sigma_squared_2D_of detector_standard_deviation model_standard_deviation;
            Omega = replicate (3 * total_num_landmarks_dimension) (1 / sigma_squared_2D);
            st0 = initial_state num_coeffs_to_fit total_num_landmarks_dimension
        in case image_loop morphable_model num_coeffs_to_fit affine_camera_matrix landmarks
                  vertex_ids base_face num_images 0 st0 of
             Inl e \<Rightarrow> Inl e
           | Inr st \<Rightarrow>
               if \<not> triplets_in_range (3 * total_num_landmarks_dimension)
                        (4 * total_num_landmarks_dimension) (P_coefficients st)
               then Inl (OutOfBounds P_matrix)
               else if sigma_squared_2D = 0 \<and> 0 < total_num_landmarks_dimension
               then Inl NonFinite
               else
                 let A = sparse_times_dense (3 * total_num_landmarks_dimension)
                           (4 * total_num_landmarks_dimension) num_coeffs_to_fit
                           (P_coefficients st) (V_hat_h st);
                     b = map2 (-) (sparse_times_vector (3 * total_num_landmarks_dimension)
                                     (4 * total_num_landmarks_dimension) (P_coefficients st)
                                     (v_bar st))
                                  (y st);
                     AtOmegaAReg = AtOmegaAReg_of num_coeffs_to_fit A Omega lambda';
                     rhs = rhs_of num_coeffs_to_fit A Omega b;
                     c_s = solve AtOmegaAReg rhs
                 in Inr c_s)"

text \<open>\<^verbatim>\<open>fit_shape_to_landmarks_linear\<close>, lines 193-198.\<close>
definition fit_shape_to_landmarks_linear ::
  "(MatrixXf \<Rightarrow> VectorXf \<Rightarrow> VectorXf) \<Rightarrow> MorphableModel \<Rightarrow> cv_Mat \<Rightarrow> Vec2f list
     \<Rightarrow> nat list \<Rightarrow> VectorXf \<Rightarrow> real \<Rightarrow> nat option \<Rightarrow> real option \<Rightarrow> real option
     \<Rightarrow> error + VectorXf" where
  "fit_shape_to_landmarks_linear solve morphable_model affine_camera_matrix landmarks vertex_ids
       base_face lambda num_coefficients_to_fit detector_standard_deviation
       model_standard_deviation =
     (let all_landmarks = [landmarks];
          all_vertex_ids = [vertex_ids]
      in fit_shape_to_landmarks_linear_multi solve morphable_model [affine_camera_matrix]
           all_landmarks all_vertex_ids [base_face] lambda num_coefficients_to_fit
           detector_standard_deviation model_standard_deviation)"

section \<open>The normal equations as the specification states them\<close>

text \<open>
  The definitions of this section follow the words of the specification (section 4.4), not the
  loops of the source; the theorems below compare the two.
\<close>

subsection \<open>The images of a call\<close>

text \<open>One image: its camera matrix, its landmarks, its vertex ids and its entry of \<open>base_face\<close>.\<close>
type_synonym image = "cv_Mat \<times> Vec2f list \<times> nat list \<times> VectorXf"

definition images :: "cv_Mat list \<Rightarrow> Vec2f list list \<Rightarrow> nat list list \<Rightarrow> VectorXf list \<Rightarrow> image list" where
  "images cams lms vids bases = zip cams (zip lms (zip vids bases))"

text \<open>The base shape of an image: "defaults to the model mean if absent", absent being the
  empty vector.\<close>
definition effective_base_face :: "MorphableModel \<Rightarrow> VectorXf \<Rightarrow> VectorXf" where
  "effective_base_face morphable_model bf =
     (if length bf = 0 then get_mean (get_shape_model morphable_model) else bf)"

text \<open>The number of coefficients that are fit: all of them unless a count is given.\<close>
definition num_coeffs :: "MorphableModel \<Rightarrow> nat option \<Rightarrow> nat" where
  "num_coeffs mm ncf =
     (case ncf of None \<Rightarrow> get_num_principal_components (get_shape_model mm) | Some n \<Rightarrow> n)"

subsection \<open>The matrices\<close>

text \<open>"the 3 rows of the rescaled basis at the corresponding vertex ... separated by one
  all-zero row per landmark"\<close>
definition V_block :: "PcaModel \<Rightarrow> nat \<Rightarrow> nat \<Rightarrow> MatrixXf" where
  "V_block m n v = [take n (rescaled_pca_basis m ! (3 * v)),
                    take n (rescaled_pca_basis m ! (3 * v + 1)),
                    take n (rescaled_pca_basis m ! (3 * v + 2)),
                    replicate n 0]"

definition spec_V_hat_h :: "MorphableModel \<Rightarrow> nat \<Rightarrow> image list \<Rightarrow> MatrixXf" where
  "spec_V_hat_h mm n ims =
     concat (map (\<lambda>(cam, lm, vid, bf). concat (map (V_block (get_shape_model mm) n) vid)) ims)"

text \<open>"homogeneous 2D landmark coordinates, third homogeneous component fixed at 1"\<close>
definition spec_y :: "image list \<Rightarrow> VectorXf" where
  "spec_y ims = concat (map (\<lambda>(cam, lm, vid, bf). concat (map (\<lambda>l. [fst l, snd l, 1]) lm)) ims)"

text \<open>"homogeneous 3D base-face coordinates per landmark, fourth component fixed at 1"\<close>
definition v_bar_block :: "VectorXf \<Rightarrow> nat \<Rightarrow> VectorXf" where
  "v_bar_block bf v = [bf ! (v * 3), bf ! (v * 3 + 1), bf ! (v * 3 + 2), 1]"

definition spec_v_bar :: "MorphableModel \<Rightarrow> image list \<Rightarrow> VectorXf" where
  "spec_v_bar mm ims =
     concat (map (\<lambda>(cam, lm, vid, bf). concat (map (v_bar_block (effective_base_face mm bf)) vid)) ims)"

text \<open>The camera of every landmark: each image's camera matrix, once per landmark.\<close>
definition cameras_per_landmark :: "image list \<Rightarrow> cv_Mat list" where
  "cameras_per_landmark ims = concat (map (\<lambda>(cam, lm, vid, bf). replicate (length lm) cam) ims)"

text \<open>The block-diagonal \<open>P\<close>: block \<open>p\<close> (rows \<open>3p .. 3p+2\<close>, columns \<open>4p .. 4p+3\<close>) is the
  camera matrix of landmark \<open>p\<close>, every other entry is zero.\<close>
definition P_coeff :: "cv_Mat list \<Rightarrow> nat \<Rightarrow> nat \<Rightarrow> real" where
  "P_coeff cpl i j =
     (if i div 3 < length cpl \<and> j div 4 = i div 3
      then at_float (cpl ! (i div 3)) (i mod 3) (j mod 4) else 0)"

definition spec_P :: "cv_Mat list \<Rightarrow> MatrixXf" where
  "spec_P cpl = map (\<lambda>i. map (\<lambda>j. P_coeff cpl i j) [0..<4 * length cpl]) [0..<3 * length cpl]"

text \<open>The product of dense matrices (the right factor with \<open>n\<close> columns) and the product of a
  matrix and a vector.\<close>
definition mat_mult :: "nat \<Rightarrow> MatrixXf \<Rightarrow> MatrixXf \<Rightarrow> MatrixXf" where
  "mat_mult n P V = map (\<lambda>row. map (\<lambda>c. \<Sum>j\<leftarrow>[0..<length row]. row ! j * V ! j ! c) [0..<n]) P"

definition mat_vec :: "MatrixXf \<Rightarrow> VectorXf \<Rightarrow> VectorXf" where
  "mat_vec M x = map (\<lambda>row. \<Sum>j\<leftarrow>[0..<length row]. row ! j * x ! j) M"

text \<open>\<open>A = P V_hat_h\<close> and \<open>b = P v_bar - y\<close>\<close>
definition spec_A :: "MorphableModel \<Rightarrow> nat \<Rightarrow> image list \<Rightarrow> MatrixXf" where
  "spec_A mm n ims = mat_mult n (spec_P (cameras_per_landmark ims)) (spec_V_hat_h mm n ims)"

definition spec_b :: "MorphableModel \<Rightarrow> image list \<Rightarrow> VectorXf" where
  "spec_b mm ims =
     map2 (-) (mat_vec (spec_P (cameras_per_landmark ims)) (spec_v_bar mm ims)) (spec_y ims)"

text \<open>"detector variance defaults to 3 (pixels squared) and model variance to 0 unless supplied";
  the arguments are standard deviations.\<close>
definition spec_variance :: "real option \<Rightarrow> real option \<Rightarrow> real" where
  "spec_variance dsd msd =
     (case dsd of None \<Rightarrow> 3 | Some s \<Rightarrow> s\<^sup>2) + (case msd of None \<Rightarrow> 0 | Some s \<Rightarrow> s\<^sup>2)"

text \<open>"Weight matrix \<open>Omega\<close> is diagonal, value \<open>1 / (sigma_detector^2 + sigma_model^2)\<close> per row"\<close>
definition spec_Omega :: "image list \<Rightarrow> real option \<Rightarrow> real option \<Rightarrow> VectorXf" where
  "spec_Omega ims dsd msd =
     replicate (3 * length (cameras_per_landmark ims)) (1 / spec_variance dsd msd)"


text \<open>The Euclidean norm of a coefficient vector.\<close>
definition euclidean_norm :: "VectorXf \<Rightarrow> real" where
  "euclidean_norm c = sqrt (\<Sum>x\<leftarrow>c. x\<^sup>2)"

subsection \<open>The normal equations from the operations on matrices\<close>

text \<open>
  The matrix \<open>A\<^sup>t Omega A + lam I\<close> and the right-hand side \<open>- A\<^sup>t Omega b\<close> of the
  specification, formed with the transpose, the diagonal matrix of a vector, the identity, the
  products and the sum; they do not use the functions of lines 162-163.
\<close>

text \<open>The transpose of a matrix of \<open>n\<close> columns.\<close>
definition transpose_mat :: "nat \<Rightarrow> MatrixXf \<Rightarrow> MatrixXf" where
  "transpose_mat n A = map (\<lambda>i. map (\<lambda>r. A ! r ! i) [0..<length A]) [0..<n]"

text \<open>The diagonal matrix of a vector, and the identity matrix.\<close>
definition diag_mat :: "VectorXf \<Rightarrow> MatrixXf" where
  "diag_mat w = map (\<lambda>i. map (\<lambda>j. if i = j then w ! i else 0) [0..<length w]) [0..<length w]"

definition identity_mat :: "nat \<Rightarrow> MatrixXf" where
  "identity_mat n = map (\<lambda>i. map (\<lambda>j. if i = j then 1 else 0) [0..<n]) [0..<n]"

text \<open>The sum of two matrices and the product of a number and a matrix.\<close>
definition mat_add :: "MatrixXf \<Rightarrow> MatrixXf \<Rightarrow> MatrixXf" where
  "mat_add A B = map2 (map2 (+)) A B"

definition scale_mat :: "real \<Rightarrow> MatrixXf \<Rightarrow> MatrixXf" where
  "scale_mat k A = map (map ((*) k)) A"

text \<open>\<open>A\<^sup>t Omega\<close> and \<open>A\<^sup>t Omega A\<close>, for a matrix \<open>A\<close> of \<open>n\<close> columns.\<close>
definition spec_At_Omega :: "nat \<Rightarrow> MatrixXf \<Rightarrow> VectorXf \<Rightarrow> MatrixXf" where
  "spec_At_Omega n A Omega = mat_mult (length A) (transpose_mat n A) (diag_mat Omega)"

definition spec_At_Omega_A :: "nat \<Rightarrow> MatrixXf \<Rightarrow> VectorXf \<Rightarrow> MatrixXf" where
  "spec_At_Omega_A n A Omega = mat_mult n (spec_At_Omega n A Omega) A"

text \<open>\<open>A\<^sup>t Omega A + lam I\<close> and \<open>- A\<^sup>t Omega b\<close>\<close>
definition spec_normal_matrix :: "nat \<Rightarrow> MatrixXf \<Rightarrow> VectorXf \<Rightarrow> real \<Rightarrow> MatrixXf" where
  "spec_normal_matrix n A Omega lam =
     mat_add (spec_At_Omega_A n A Omega) (scale_mat lam (identity_mat n))"

definition spec_normal_rhs :: "nat \<Rightarrow> MatrixXf \<Rightarrow> VectorXf \<Rightarrow> VectorXf \<Rightarrow> VectorXf" where
  "spec_normal_rhs n A Omega b = map uminus (mat_vec (spec_At_Omega n A Omega) b)"

subsection \<open>Well-formed calls\<close>

text \<open>
  An image the loop goes through without a failure: as many vertex ids as landmarks, a camera
  matrix of 3 rows and 4 columns, and every vertex id inside the basis and inside the base face.
\<close>
definition image_ok :: "MorphableModel \<Rightarrow> image \<Rightarrow> bool" where
  "image_ok mm im = (case im of (cam, lm, vid, bf) \<Rightarrow>
     length lm = length vid \<and> rows cam = 3 \<and> cols cam = 4 \<and>
     (\<forall>v\<in>set vid. 3 * v + 3 \<le> length (rescaled_pca_basis (get_shape_model mm)) \<and>
                   v * 3 + 2 < length (effective_base_face mm bf)))"

text \<open>
  A call the function goes through without a failure: per-image lists of one length, a base
  face entry for every image, no more coefficients than the model has, a basis whose rows have
  one entry per principal component, images as above, and a variance that is not zero.
\<close>
definition call_ok ::
  "MorphableModel \<Rightarrow> cv_Mat list \<Rightarrow> Vec2f list list \<Rightarrow> nat list list \<Rightarrow> VectorXf list
     \<Rightarrow> nat option \<Rightarrow> real option \<Rightarrow> real option \<Rightarrow> bool" where
  "call_ok mm cams lms vids bases ncf dsd msd \<longleftrightarrow>
     length cams = length lms \<and> length lms = length vids \<and> length cams \<le> length bases \<and>
     num_coeffs mm ncf \<le> get_num_principal_components (get_shape_model mm) \<and>
     list_all (\<lambda>row. length row = get_num_principal_components (get_shape_model mm))
       (rescaled_pca_basis (get_shape_model mm)) \<and>
     list_all (image_ok mm) (images cams lms vids bases) \<and>
     spec_variance dsd msd \<noteq> 0"

text \<open>The solver did its work on the system \<open>M x = r\<close>: it returned a solution.\<close>
definition solves :: "(MatrixXf \<Rightarrow> VectorXf \<Rightarrow> VectorXf) \<Rightarrow> MatrixXf \<Rightarrow> VectorXf \<Rightarrow> bool" where
  "solves solve M r \<longleftrightarrow> length (solve M r) = length r \<and> mat_vec M (solve M r) = r"

subsection \<open>The state of the loop in closed form\<close>

text \<open>The triplets of the block-diagonal matrix, block after block.\<close>
definition block_triplets :: "cv_Mat list \<Rightarrow> Triplet list" where
  "block_triplets cpl = concat (map (\<lambda>p. camera_triplets (cpl ! p) p) [0..<length cpl])"

text \<open>The state after the rounds for the images \<open>ims\<close>, of \<open>N\<close> landmarks in the whole call:
  the entries of these images are written, the rest is as allocated.\<close>
definition built_state :: "MorphableModel \<Rightarrow> nat \<Rightarrow> nat \<Rightarrow> image list \<Rightarrow> build_state" where
  "built_state mm n N ims =
     (let Nk = length (cameras_per_landmark ims) in
      \<lparr>V_hat_h = spec_V_hat_h mm n ims @ replicate (4 * (N - Nk)) (replicate n 0),
       V_hat_h_row_index = 4 * Nk,
       P_coefficients = block_triplets (cameras_per_landmark ims), P_index = Nk,
       y = spec_y ims @ replicate (3 * (N - Nk)) 1, y_index = Nk,
       v_bar = spec_v_bar mm ims @ replicate (4 * (N - Nk)) 1, v_bar_index = Nk\<rparr>)"

subsection \<open>A small model, a camera and an exact solver for the examples\<close>

text \<open>One vertex at the origin, one principal component that moves it along the x axis.\<close>
definition ex_model :: MorphableModel where
  "ex_model = \<lparr>shape_model = \<lparr>mean = [0, 0, 0], rescaled_pca_basis = [[1], [0], [0]],
                               num_principal_components = 1\<rparr>\<rparr>"

text \<open>The same vertex with a basis that does not move it.\<close>
definition ex_flat_model :: MorphableModel where
  "ex_flat_model = \<lparr>shape_model = \<lparr>mean = [0, 0, 0], rescaled_pca_basis = [[0], [0], [0]],
                                    num_principal_components = 1\<rparr>\<rparr>"

text \<open>The affine camera that drops the z coordinate: rows \<open>(1 0 0 0)\<close>, \<open>(0 1 0 0)\<close>, \<open>(0 0 0 1)\<close>.\<close>
definition ex_cam :: cv_Mat where
  "ex_cam = \<lparr>rows = 3, cols = 4,
             at_float = (\<lambda>x y. if (x = 0 \<and> y = 0) \<or> (x = 1 \<and> y = 1) \<or> (x = 2 \<and> y = 3) then 1 else 0)\<rparr>"

text \<open>
  An exact solver for systems of one and two unknowns (Cramer's rule), to stand for Eigen's
  \<open>colPivHouseholderQr().solve\<close> in the examples. On an invertible matrix it returns the one
  solution, as every exact solver does; where the determinant is zero it returns the zero
  vector, which is Eigen's answer for the zero matrix (no non-zero pivot). The examples use it
  on invertible matrices and on the zero matrix only.
\<close>
fun cramer_solve :: "MatrixXf \<Rightarrow> VectorXf \<Rightarrow> VectorXf" where
  "cramer_solve [[a]] [r] = (if a = 0 then [0] else [r / a])"
| "cramer_solve [[a, b], [c, d]] [r, s] =
     (if a * d - b * c = 0 then [0, 0]
      else [(r * d - b * s) / (a * d - b * c), (a * s - r * c) / (a * d - b * c)])"
| "cramer_solve M r = replicate (length r) 0"


text \<open>
  Two vertices and two principal components: the first component moves both vertices along the
  x axis, the second moves vertex 0 along the y axis and vertex 1 along both axes.
\<close>
definition ex_wide_model :: MorphableModel where
  "ex_wide_model =
     \<lparr>shape_model = \<lparr>mean = [0, 0, 0, 1, 1, 0],
                      rescaled_pca_basis = [[1, 0], [0, 1], [0, 0], [1, 1], [0, 2], [0, 0]],
                      num_principal_components = 2\<rparr>\<rparr>"

text \<open>
  Two images on that model: two landmarks at the vertices 0 and 1 with the mean as the base
  face, and one landmark at vertex 0 with a base face of its own.
\<close>
definition ex_wide_images :: "image list" where
  "ex_wide_images =
     [(ex_cam, [(2, 0), (1, 3)], [0, 1], []), (ex_cam, [(0, 1)], [0], [1, 0, 0, 0, 0, 0])]"

subsection \<open>The system, correspondence by correspondence\<close>





subsection \<open>Landmarks that are exact projections of a model point\<close>




section \<open>The loops in closed form\<close>

declare image_loop.simps [simp del]

lemma replicate_4_Suc: "replicate (4 * Suc k) z = z # z # z # z # replicate (4 * k) z"
  by (simp add: numeral_eq_Suc)

lemma replicate_3_Suc: "replicate (3 * Suc k) z = z # z # z # replicate (3 * k) z"
  by (simp add: numeral_eq_Suc)

lemma fill_V_hat_h_closed:
  assumes "\<forall>v\<in>set vs. 3 * v + 3 \<le> length (rescaled_pca_basis m)"
    and "n \<le> get_num_principal_components m"
    and "length pre = r" and "length vs \<le> k"
  shows "fill_V_hat_h m n vs (pre @ replicate (4 * k) (replicate n 0), r) =
           Inr (pre @ concat (map (V_block m n) vs) @ replicate (4 * (k - length vs)) (replicate n 0),
                r + 4 * length vs)"
  using assms
proof (induction vs arbitrary: pre r k)
  case Nil
  then show ?case by simp
next
  case (Cons v vs)
  from Cons.prems obtain k' where k: "k = Suc k'" by (cases k) auto
  have len: "length (pre @ V_block m n v) = r + 4"
    using Cons.prems by (simp add: V_block_def)
  have upd: "(pre @ replicate (4 * k) (replicate n 0))
               [r := take n (rescaled_pca_basis m ! (3 * v)),
                r + 1 := take n (rescaled_pca_basis m ! (3 * v + 1)),
                r + 2 := take n (rescaled_pca_basis m ! (3 * v + 2))]
             = (pre @ V_block m n v) @ replicate (4 * k') (replicate n 0)"
    using Cons.prems(3) unfolding k replicate_4_Suc
    by (simp add: list_update_append V_block_def)
  have IH: "fill_V_hat_h m n vs ((pre @ V_block m n v) @ replicate (4 * k') (replicate n 0), r + 4) =
        Inr ((pre @ V_block m n v) @ concat (map (V_block m n) vs) @
             replicate (4 * (k' - length vs)) (replicate n 0), r + 4 + 4 * length vs)"
    using Cons.prems k by (intro Cons.IH len) auto
  have step: "fill_V_hat_h m n (v # vs) (pre @ replicate (4 * k) (replicate n 0), r) =
      fill_V_hat_h m n vs ((pre @ replicate (4 * k) (replicate n 0))
               [r := take n (rescaled_pca_basis m ! (3 * v)),
                r + 1 := take n (rescaled_pca_basis m ! (3 * v + 1)),
                r + 2 := take n (rescaled_pca_basis m ! (3 * v + 2))], r + 4)"
    using Cons.prems(1,2) by (simp add: get_rescaled_pca_basis_at_point_def)
  show ?case
    unfolding step upd IH using k by simp
qed

lemma fill_P_closed:
  "fill_P cam cnt (ts, p) = (ts @ concat (map (camera_triplets cam) [p..<p + cnt]), p + cnt)"
proof (induction cnt arbitrary: ts p)
  case 0
  then show ?case by simp
next
  case (Suc cnt)
  have "[p..<p + Suc cnt] = p # [Suc p..<Suc p + cnt]"
    by (simp add: upt_conv_Cons)
  then show ?case by (simp add: Suc.IH)
qed

lemma fill_y_closed:
  assumes "length pre = 3 * i" and "length ls \<le> k"
  shows "fill_y ls (pre @ replicate (3 * k) 1, i) =
           (pre @ concat (map (\<lambda>l. [fst l, snd l, 1]) ls) @ replicate (3 * (k - length ls)) 1,
            i + length ls)"
  using assms
proof (induction ls arbitrary: pre i k)
  case Nil
  then show ?case by simp
next
  case (Cons l ls)
  from Cons.prems obtain k' where k: "k = Suc k'" by (cases k) auto
  have upd: "(pre @ replicate (3 * k) 1)[3 * i := fst l, 3 * i + 1 := snd l]
             = (pre @ [fst l, snd l, 1]) @ replicate (3 * k') 1"
    using Cons.prems(1) unfolding k replicate_3_Suc
    by (simp add: list_update_append)
  have IH: "fill_y ls ((pre @ [fst l, snd l, 1]) @ replicate (3 * k') 1, i + 1) =
        ((pre @ [fst l, snd l, 1]) @ concat (map (\<lambda>l. [fst l, snd l, 1]) ls) @
             replicate (3 * (k' - length ls)) 1, i + 1 + length ls)"
    using Cons.prems k by (intro Cons.IH) auto
  have step: "fill_y (l # ls) (pre @ replicate (3 * k) 1, i) =
      fill_y ls ((pre @ replicate (3 * k) 1)[3 * i := fst l, 3 * i + 1 := snd l], i + 1)"
    by simp
  show ?case
    unfolding step upd IH using k by simp
qed

lemma fill_v_bar_closed:
  assumes "\<forall>v\<in>set vs. v * 3 + 2 < length bf"
    and "length pre = 4 * i" and "length vs \<le> k"
  shows "fill_v_bar bf vs (pre @ replicate (4 * k) 1, i) =
           Inr (pre @ concat (map (v_bar_block bf) vs) @ replicate (4 * (k - length vs)) 1,
                i + length vs)"
  using assms
proof (induction vs arbitrary: pre i k)
  case Nil
  then show ?case by simp
next
  case (Cons v vs)
  from Cons.prems obtain k' where k: "k = Suc k'" by (cases k) auto
  have upd: "(pre @ replicate (4 * k) 1)
               [4 * i := bf ! (v * 3), 4 * i + 1 := bf ! (v * 3 + 1), 4 * i + 2 := bf ! (v * 3 + 2)]
             = (pre @ v_bar_block bf v) @ replicate (4 * k') 1"
    using Cons.prems(2) unfolding k replicate_4_Suc
    by (simp add: list_update_append v_bar_block_def)
  have IH: "fill_v_bar bf vs ((pre @ v_bar_block bf v) @ replicate (4 * k') 1, i + 1) =
        Inr ((pre @ v_bar_block bf v) @ concat (map (v_bar_block bf) vs) @
             replicate (4 * (k' - length vs)) 1, i + 1 + length vs)"
    using Cons.prems k by (intro Cons.IH) (auto simp: v_bar_block_def)
  have step: "fill_v_bar bf (v # vs) (pre @ replicate (4 * k) 1, i) =
      fill_v_bar bf vs ((pre @ replicate (4 * k) 1)
               [4 * i := bf ! (v * 3), 4 * i + 1 := bf ! (v * 3 + 1), 4 * i + 2 := bf ! (v * 3 + 2)],
               i + 1)"
    using Cons.prems(1) by simp
  show ?case
    unfolding step upd IH using k by simp
qed

lemma length_concat_const:
  "\<forall>b\<in>set bs. length b = k \<Longrightarrow> length (concat bs) = k * length bs"
  by (induction bs) auto

lemma length_cameras_per_landmark_app [simp]:
  "cameras_per_landmark (ims @ [(cam, lm, vid, bf)]) = cameras_per_landmark ims @ replicate (length lm) cam"
  by (simp add: cameras_per_landmark_def)

lemma length_spec_V_hat_h:
  "\<forall>im\<in>set ims. image_ok mm im \<Longrightarrow> length (spec_V_hat_h mm n ims) = 4 * length (cameras_per_landmark ims)"
proof (induction ims)
  case Nil
  then show ?case by (simp add: spec_V_hat_h_def cameras_per_landmark_def)
next
  case (Cons im ims)
  obtain cam lm vid bf where im: "im = (cam, lm, vid, bf)" by (cases im) auto
  have "length (concat (map (V_block (get_shape_model mm) n) vid)) = 4 * length vid"
    by (subst length_concat_const [where k = 4]) (auto simp: V_block_def)
  with Cons show ?case
    by (simp add: spec_V_hat_h_def cameras_per_landmark_def im image_ok_def)
qed

lemma length_spec_y:
  "length (spec_y ims) = 3 * length (cameras_per_landmark ims)"
proof (induction ims)
  case Nil
  then show ?case by (simp add: spec_y_def cameras_per_landmark_def)
next
  case (Cons im ims)
  obtain cam lm vid bf where im: "im = (cam, lm, vid, bf)" by (cases im) auto
  have "length (concat (map (\<lambda>l. [fst l, snd l, 1::real]) lm)) = 3 * length lm"
    by (subst length_concat_const [where k = 3]) auto
  with Cons show ?case
    by (simp add: spec_y_def cameras_per_landmark_def im)
qed

lemma length_spec_v_bar:
  "\<forall>im\<in>set ims. image_ok mm im \<Longrightarrow> length (spec_v_bar mm ims) = 4 * length (cameras_per_landmark ims)"
proof (induction ims)
  case Nil
  then show ?case by (simp add: spec_v_bar_def cameras_per_landmark_def)
next
  case (Cons im ims)
  obtain cam lm vid bf where im: "im = (cam, lm, vid, bf)" by (cases im) auto
  have "length (concat (map (v_bar_block (effective_base_face mm bf)) vid)) = 4 * length vid"
    by (subst length_concat_const [where k = 4]) (auto simp: v_bar_block_def)
  with Cons show ?case
    by (simp add: spec_v_bar_def cameras_per_landmark_def im image_ok_def)
qed

lemma block_triplets_app:
  "block_triplets (cpl @ replicate cnt cam) =
     block_triplets cpl @ concat (map (camera_triplets cam) [length cpl..<length cpl + cnt])"
proof -
  have split: "[0..<length cpl + cnt] = [0..<length cpl] @ [length cpl..<length cpl + cnt]"
    by (metis le_add1 upt_add_eq_append zero_le)
  have a: "map (\<lambda>p. camera_triplets ((cpl @ replicate cnt cam) ! p) p) [0..<length cpl]
         = map (\<lambda>p. camera_triplets (cpl ! p) p) [0..<length cpl]"
    by (rule map_cong) (auto simp: nth_append)
  have b: "map (\<lambda>p. camera_triplets ((cpl @ replicate cnt cam) ! p) p) [length cpl..<length cpl + cnt]
         = map (camera_triplets cam) [length cpl..<length cpl + cnt]"
    by (rule map_cong) (auto simp: nth_append)
  show ?thesis
    by (simp add: block_triplets_def split a b)
qed

lemma process_image_built:
  assumes ok: "\<forall>im\<in>set ims. image_ok mm im" "image_ok mm (cams ! k, lms ! k, vids ! k, bases ! k)"
    and n: "n \<le> get_num_principal_components (get_shape_model mm)"
    and k: "k < length bases"
    and N: "length (cameras_per_landmark ims) + length (lms ! k) \<le> N"
  shows "process_image mm n cams lms vids bases k (built_state mm n N ims) =
           Inr (built_state mm n N (ims @ [(cams ! k, lms ! k, vids ! k, bases ! k)]))"
proof -
  let ?Nk = "length (cameras_per_landmark ims)"
  let ?pm = "get_shape_model mm"
  let ?bf = "effective_base_face mm (bases ! k)"
  from ok(2) have len: "length (lms ! k) = length (vids ! k)"
    and vok: "\<forall>v\<in>set (vids ! k). 3 * v + 3 \<le> length (rescaled_pca_basis ?pm)"
    and bok: "\<forall>v\<in>set (vids ! k). v * 3 + 2 < length ?bf"
    by (auto simp: image_ok_def)
  have eq: "N - ?Nk - length (vids ! k) = N - (?Nk + length (vids ! k))" by simp
  have V: "fill_V_hat_h ?pm n (vids ! k)
             (spec_V_hat_h mm n ims @ replicate (4 * (N - ?Nk)) (replicate n 0), 4 * ?Nk)
           = Inr (spec_V_hat_h mm n ims @ concat (map (V_block ?pm n) (vids ! k)) @
                    replicate (4 * (N - ?Nk - length (vids ! k))) (replicate n 0),
                  4 * ?Nk + 4 * length (vids ! k))"
    using N len by (intro fill_V_hat_h_closed vok n length_spec_V_hat_h ok(1)) auto
  have Y: "fill_y (lms ! k) (spec_y ims @ replicate (3 * (N - ?Nk)) 1, ?Nk)
           = (spec_y ims @ concat (map (\<lambda>l. [fst l, snd l, 1]) (lms ! k)) @
                replicate (3 * (N - ?Nk - length (lms ! k))) 1, ?Nk + length (lms ! k))"
    using N by (intro fill_y_closed length_spec_y) auto
  have B: "fill_v_bar ?bf (vids ! k) (spec_v_bar mm ims @ replicate (4 * (N - ?Nk)) 1, ?Nk)
           = Inr (spec_v_bar mm ims @ concat (map (v_bar_block ?bf) (vids ! k)) @
                    replicate (4 * (N - ?Nk - length (vids ! k))) 1, ?Nk + length (vids ! k))"
    using N len by (intro fill_v_bar_closed bok length_spec_v_bar ok(1)) auto
  have eff: "\<And>bf. (if bf = [] then get_mean (get_shape_model mm) else bf) = effective_base_face mm bf"
    by (simp add: effective_base_face_def)
  have run: "process_image mm n cams lms vids bases k (built_state mm n N ims) =
      Inr \<lparr>V_hat_h = spec_V_hat_h mm n ims @ concat (map (V_block ?pm n) (vids ! k)) @
                    replicate (4 * (N - ?Nk - length (vids ! k))) (replicate n 0),
           V_hat_h_row_index = 4 * ?Nk + 4 * length (vids ! k),
           P_coefficients = block_triplets (cameras_per_landmark ims) @
              concat (map (camera_triplets (cams ! k)) [?Nk..<?Nk + length (lms ! k)]),
           P_index = ?Nk + length (lms ! k),
           y = spec_y ims @ concat (map (\<lambda>l. [fst l, snd l, 1]) (lms ! k)) @
                replicate (3 * (N - ?Nk - length (lms ! k))) 1,
           y_index = ?Nk + length (lms ! k),
           v_bar = spec_v_bar mm ims @ concat (map (v_bar_block ?bf) (vids ! k)) @
                    replicate (4 * (N - ?Nk - length (vids ! k))) 1,
           v_bar_index = ?Nk + length (vids ! k)\<rparr>"
    using k len
    by (simp add: process_image_def built_state_def Let_def eff V Y B fill_P_closed)
  show ?thesis
    unfolding run using len
    by (simp add: built_state_def Let_def block_triplets_app
          spec_V_hat_h_def spec_y_def spec_v_bar_def eq)
qed

lemma sum_list_upt_sum: "(\<Sum>x\<leftarrow>[0..<k]. f x) = (\<Sum>x<k. f x)"
  by (simp add: interv_sum_list_conv_sum_set_nat atLeast0LessThan)

lemma sparse_coeff_concat:
  "sparse_coeff (concat tss) i j = (\<Sum>ts\<leftarrow>tss. sparse_coeff ts i j)"
  by (induction tss) (simp_all add: sparse_coeff_def)

lemma sparse_coeff_camera_triplets:
  assumes "rows cam = 3" "cols cam = 4"
  shows "sparse_coeff (camera_triplets cam p) i j =
           (if i div 3 = p \<and> j div 4 = p then at_float cam (i mod 3) (j mod 4) else 0)"
proof -
  have expand: "sparse_coeff (camera_triplets cam p) i j =
      (\<Sum>x<3. \<Sum>y<4. if 3 * p + x = i \<and> 4 * p + y = j then at_float cam x y else 0)"
    unfolding camera_triplets_def sparse_coeff_concat assms
    by (simp add: sparse_coeff_def comp_def sum_list_upt_sum del: upt_Suc)
  show ?thesis
  proof (cases "i div 3 = p \<and> j div 4 = p")
    case True
    have "3 * (i div 3) + i mod 3 = i" "4 * (j div 4) + j mod 4 = j"
      by (rule mult_div_mod_eq)+
    with True have i: "i = 3 * p + i mod 3" and j: "j = 4 * p + j mod 4"
      by auto
    have x: "\<And>x. (3 * p + x = i) = (x = i mod 3)"
      using i by linarith
    have y: "\<And>y. (4 * p + y = j) = (y = j mod 4)"
      using j by linarith
    have "(\<Sum>x<3. \<Sum>y<4. if 3 * p + x = i \<and> 4 * p + y = j then at_float cam x y else 0)
        = (\<Sum>x<3. \<Sum>y<4. if x = i mod 3 then (if y = j mod 4 then at_float cam x y else 0) else 0)"
      by (intro sum.cong refl) (simp add: x y)
    also have "\<dots> = (\<Sum>x\<in>{..<3}. if x = i mod 3 then (\<Sum>y\<in>{..<4}. if y = j mod 4 then at_float cam x y else 0) else 0)"
      by (intro sum.cong refl) simp
    also have "\<dots> = at_float cam (i mod 3) (j mod 4)"
      by (simp add: sum.delta' sum.delta)
    finally show ?thesis using True expand by simp
  next
    case False
    have "\<And>x y. x < 3 \<Longrightarrow> y < 4 \<Longrightarrow> \<not> (3 * p + x = i \<and> 4 * p + y = j)"
    proof
      fix x y :: nat
      assume "x < 3" "y < 4" and e: "3 * p + x = i \<and> 4 * p + y = j"
      then have "i div 3 = p" "j div 4 = p" by auto
      with False show False by simp
    qed
    then have "(\<Sum>x<3. \<Sum>y<4. if 3 * p + x = i \<and> 4 * p + y = j then at_float cam x y else 0) = (\<Sum>x<(3::nat). \<Sum>y<(4::nat). (0::real))"
      by (intro sum.cong refl) auto
    then show ?thesis using False expand by auto
  qed
qed

lemma sparse_coeff_block_triplets:
  assumes "\<forall>cam\<in>set cpl. rows cam = 3 \<and> cols cam = 4"
  shows "sparse_coeff (block_triplets cpl) i j = P_coeff cpl i j"
proof -
  have "sparse_coeff (block_triplets cpl) i j =
        (\<Sum>p\<leftarrow>[0..<length cpl]. sparse_coeff (camera_triplets (cpl ! p) p) i j)"
    by (simp add: block_triplets_def sparse_coeff_concat comp_def)
  also have "\<dots> = (\<Sum>p<length cpl. sparse_coeff (camera_triplets (cpl ! p) p) i j)"
    by (rule sum_list_upt_sum)
  also have "\<dots> = (\<Sum>p\<in>{..<length cpl}. if i div 3 = p
        then (if j div 4 = p then at_float (cpl ! p) (i mod 3) (j mod 4) else 0) else 0)"
    using assms by (intro sum.cong refl) (simp add: sparse_coeff_camera_triplets)
  also have "\<dots> = P_coeff cpl i j"
    by (simp add: sum.delta P_coeff_def)
  finally show ?thesis .
qed

lemma triplets_in_range_block_triplets:
  assumes "\<forall>cam\<in>set cpl. rows cam = 3 \<and> cols cam = 4"
  shows "triplets_in_range (3 * length cpl) (4 * length cpl) (block_triplets cpl)"
  using assms
  by (auto simp: triplets_in_range_def block_triplets_def camera_triplets_def list_all_iff)

lemma sigma_squared_2D_spec: "sigma_squared_2D_of dsd msd = spec_variance dsd msd"
  by (simp add: sigma_squared_2D_of_def spec_variance_def split: option.splits)

lemma cameras_per_landmark_append:
  "cameras_per_landmark (xs @ ys) = cameras_per_landmark xs @ cameras_per_landmark ys"
  by (simp add: cameras_per_landmark_def)

lemma length_cpl_take_le:
  "length (cameras_per_landmark (take k ims)) \<le> length (cameras_per_landmark ims)"
proof -
  have "cameras_per_landmark ims = cameras_per_landmark (take k ims @ drop k ims)" by simp
  then show ?thesis unfolding cameras_per_landmark_append by simp
qed

lemma length_cpl_images:
  assumes "length cams = length lms" "length lms = length vids" "length cams \<le> length bases"
  shows "length (cameras_per_landmark (images cams lms vids bases)) = sum_list (map length lms)"
proof -
  have "map (\<lambda>(cam, lm, vid, bf). length lm) (images cams lms vids bases) = map length lms"
    using assms by (intro nth_equalityI) (auto simp: images_def)
  moreover have "length (cameras_per_landmark ims) = sum_list (map (\<lambda>(cam, lm, vid, bf). length lm) ims)" for ims
    by (induction ims) (auto simp: cameras_per_landmark_def)
  ultimately show ?thesis by simp
qed

lemma image_loop_built:
  fixes ims defines "N \<equiv> length (cameras_per_landmark ims)"
  assumes ims: "ims = images cams lms vids bases"
    and len: "length cams = M" "length lms = M" "length vids = M" "M \<le> length bases"
    and ok: "\<forall>im\<in>set ims. image_ok mm im"
    and n: "n \<le> get_num_principal_components (get_shape_model mm)"
    and k: "k \<le> M"
  shows "image_loop mm n cams lms vids bases M k (built_state mm n N (take k ims)) =
           Inr (built_state mm n N ims)"
  using k
proof (induction "M - k" arbitrary: k)
  case 0
  then have "k = M" by simp
  moreover have "length ims = M" using len by (simp add: ims images_def)
  ultimately show ?case by (simp add: image_loop.simps)
next
  case (Suc d)
  then have k: "k < M" by simp
  have lims: "length ims = M" using len by (simp add: ims images_def)
  have nth: "ims ! k = (cams ! k, lms ! k, vids ! k, bases ! k)"
    using k len by (simp add: ims images_def)
  have tk: "take (Suc k) ims = take k ims @ [(cams ! k, lms ! k, vids ! k, bases ! k)]"
    using k lims nth by (simp add: take_Suc_conv_app_nth)
  have okk: "image_ok mm (cams ! k, lms ! k, vids ! k, bases ! k)"
    using ok k lims nth by (metis nth_mem)
  have okp: "\<forall>im\<in>set (take k ims). image_ok mm im"
    using ok by (auto dest: in_set_takeD)
  have "length (cameras_per_landmark (take (Suc k) ims)) \<le> N"
    unfolding N_def by (rule length_cpl_take_le)
  then have bound: "length (cameras_per_landmark (take k ims)) + length (lms ! k) \<le> N"
    by (simp add: tk)
  have step: "process_image mm n cams lms vids bases k (built_state mm n N (take k ims)) =
      Inr (built_state mm n N (take (Suc k) ims))"
    unfolding tk using k len by (intro process_image_built okp okk n bound) auto
  have "image_loop mm n cams lms vids bases M (k + 1) (built_state mm n N (take (k + 1) ims)) =
      Inr (built_state mm n N ims)"
    using Suc.hyps(2) k by (intro Suc.hyps(1)) auto
  then show ?case
    using k by (subst image_loop.simps) (simp add: step)
qed

lemma sparse_times_dense_spec:
  assumes "\<forall>cam\<in>set cpl. rows cam = 3 \<and> cols cam = 4"
  shows "sparse_times_dense (3 * length cpl) (4 * length cpl) n (block_triplets cpl) V =
           mat_mult n (spec_P cpl) V"
proof -
  have "(\<Sum>j\<leftarrow>[0..<4 * length cpl]. sparse_coeff (block_triplets cpl) i j * V ! j ! c) =
        (\<Sum>j\<leftarrow>[0..<4 * length cpl]. map (P_coeff cpl i) [0..<4 * length cpl] ! j * V ! j ! c)" for i c
    by (intro arg_cong [where f = sum_list] map_cong refl)
       (simp add: sparse_coeff_block_triplets [OF assms])
  then show ?thesis
    by (simp add: sparse_times_dense_def mat_mult_def spec_P_def comp_def)
qed

lemma sparse_times_vector_spec:
  assumes "\<forall>cam\<in>set cpl. rows cam = 3 \<and> cols cam = 4"
  shows "sparse_times_vector (3 * length cpl) (4 * length cpl) (block_triplets cpl) v =
           mat_vec (spec_P cpl) v"
proof -
  have "(\<Sum>j\<leftarrow>[0..<4 * length cpl]. sparse_coeff (block_triplets cpl) i j * v ! j) =
        (\<Sum>j\<leftarrow>[0..<4 * length cpl]. map (P_coeff cpl i) [0..<4 * length cpl] ! j * v ! j)" for i
    by (intro arg_cong [where f = sum_list] map_cong refl)
       (simp add: sparse_coeff_block_triplets [OF assms])
  then show ?thesis
    by (simp add: sparse_times_vector_def mat_vec_def spec_P_def comp_def)
qed

lemma cameras_3x4:
  "\<forall>im\<in>set ims. image_ok mm im \<Longrightarrow> \<forall>cam\<in>set (cameras_per_landmark ims). rows cam = 3 \<and> cols cam = 4"
  by (auto simp: cameras_per_landmark_def image_ok_def)

lemma fit_closed:
  assumes "call_ok mm cams lms vids bases ncf dsd msd"
  defines "ims \<equiv> images cams lms vids bases" and "n \<equiv> num_coeffs mm ncf"
  shows "fit_shape_to_landmarks_linear_multi solve mm cams lms vids bases lambda ncf dsd msd =
           Inr (solve (AtOmegaAReg_of n (spec_A mm n ims) (spec_Omega ims dsd msd)
                         (lambda * real (length cams)))
                      (rhs_of n (spec_A mm n ims) (spec_Omega ims dsd msd) (spec_b mm ims)))"
proof -
  let ?N = "length (cameras_per_landmark ims)"
  from assms(1) have len: "length cams = length lms" "length lms = length vids"
      "length cams \<le> length bases"
    and n: "n \<le> get_num_principal_components (get_shape_model mm)"
    and ok: "\<forall>im\<in>set ims. image_ok mm im"
    and var: "spec_variance dsd msd \<noteq> 0"
    by (auto simp: call_ok_def ims_def n_def list_all_iff)
  have N: "sum_list (map length lms) = ?N"
    unfolding ims_def using len by (simp add: length_cpl_images)
  have st0: "initial_state n ?N = built_state mm n ?N (take 0 ims)"
    by (simp add: initial_state_def built_state_def cameras_per_landmark_def spec_V_hat_h_def
          spec_y_def spec_v_bar_def block_triplets_def)
  have loop: "image_loop mm n cams lms vids bases (length cams) 0 (built_state mm n ?N (take 0 ims))
      = Inr (built_state mm n ?N ims)"
    using len by (intro image_loop_built ok n) (auto simp: ims_def)
  have cam: "\<forall>cam\<in>set (cameras_per_landmark ims). rows cam = 3 \<and> cols cam = 4"
    using ok by (rule cameras_3x4)
  have sel: "P_coefficients (built_state mm n ?N ims) = block_triplets (cameras_per_landmark ims)"
    "V_hat_h (built_state mm n ?N ims) = spec_V_hat_h mm n ims"
    "y (built_state mm n ?N ims) = spec_y ims"
    "v_bar (built_state mm n ?N ims) = spec_v_bar mm ims"
    by (simp_all add: built_state_def Let_def)
  show ?thesis
    unfolding fit_shape_to_landmarks_linear_multi_def Let_def num_coeffs_def [symmetric]
      n_def [symmetric] N st0 loop
    using len var
    by (simp add: sel triplets_in_range_block_triplets [OF cam] sigma_squared_2D_spec
          sparse_times_dense_spec [OF cam] sparse_times_vector_spec [OF cam]
          spec_A_def spec_b_def spec_Omega_def)
qed

section \<open>The quadratic form of the normal equations\<close>

lemma quad_form:
  fixes a :: "nat \<Rightarrow> nat \<Rightarrow> real" and x :: "nat \<Rightarrow> real"
  shows "(\<Sum>i<n. x i * (\<Sum>j<n. (\<Sum>r<m. a r i * w * a r j) * x j)) =
           w * (\<Sum>r<m. (\<Sum>i<n. a r i * x i)\<^sup>2)"
proof -
  have "(\<Sum>i<n. x i * (\<Sum>j<n. (\<Sum>r<m. a r i * w * a r j) * x j)) =
        (\<Sum>i<n. \<Sum>j<n. \<Sum>r<m. w * ((a r i * x i) * (a r j * x j)))"
    by (simp add: sum_distrib_left sum_distrib_right mult_ac)
  also have "\<dots> = (\<Sum>i<n. \<Sum>r<m. \<Sum>j<n. w * ((a r i * x i) * (a r j * x j)))"
    by (intro sum.cong refl sum.swap)
  also have "\<dots> = (\<Sum>r<m. \<Sum>i<n. \<Sum>j<n. w * ((a r i * x i) * (a r j * x j)))"
    by (rule sum.swap)
  also have "\<dots> = (\<Sum>r<m. w * ((\<Sum>i<n. a r i * x i) * (\<Sum>j<n. a r j * x j)))"
    by (simp only: sum_product) (simp only: sum_distrib_left)
  also have "\<dots> = w * (\<Sum>r<m. (\<Sum>i<n. a r i * x i)\<^sup>2)"
    by (simp add: sum_distrib_left power2_eq_square)
  finally show ?thesis .
qed

lemma ridge_monotone:
  fixes a :: "nat \<Rightarrow> nat \<Rightarrow> real" and c1 c2 r :: "nat \<Rightarrow> real"
  assumes w: "0 \<le> w" and mu: "0 \<le> mu1" "mu1 < mu2"
    and e1: "\<And>i. i < n \<Longrightarrow> (\<Sum>j<n. (\<Sum>q<m. a q i * w * a q j) * c1 j) + mu1 * c1 i = r i"
    and e2: "\<And>i. i < n \<Longrightarrow> (\<Sum>j<n. (\<Sum>q<m. a q i * w * a q j) * c2 j) + mu2 * c2 i = r i"
  shows "(\<Sum>i<n. (c2 i)\<^sup>2) \<le> (\<Sum>i<n. (c1 i)\<^sup>2)"
proof -
  define d where "d i = c1 i - c2 i" for i
  let ?S = "\<lambda>i j. (\<Sum>q<m. a q i * w * a q j)"
  have Sd: "(\<Sum>j<n. ?S i j * d j) = mu2 * c2 i - mu1 * c1 i" if "i < n" for i
  proof -
    have "(\<Sum>j<n. ?S i j * d j) = (\<Sum>j<n. ?S i j * c1 j) - (\<Sum>j<n. ?S i j * c2 j)"
      unfolding d_def by (simp add: right_diff_distrib sum_subtractf)
    then show ?thesis using e1 [OF that] e2 [OF that] by linarith
  qed
  have "0 \<le> w * (\<Sum>q<m. (\<Sum>i<n. a q i * d i)\<^sup>2)"
    using w by (intro mult_nonneg_nonneg sum_nonneg) auto
  also have "\<dots> = (\<Sum>i<n. d i * (\<Sum>j<n. ?S i j * d j))"
    by (rule quad_form [symmetric])
  also have "\<dots> = (\<Sum>i<n. d i * (mu2 * c2 i - mu1 * c1 i))"
    by (intro sum.cong refl) (simp add: Sd)
  also have "\<dots> \<le> (\<Sum>i<n. (mu2 - mu1) / 2 * ((c1 i)\<^sup>2 - (c2 i)\<^sup>2))"
  proof (rule sum_mono)
    fix i
    have "0 \<le> (mu1 + mu2) / 2 * (c1 i - c2 i)\<^sup>2"
      using mu by (intro mult_nonneg_nonneg) auto
    moreover have "2 * (d i * (mu2 * c2 i - mu1 * c1 i)) =
        (mu2 - mu1) * ((c1 i)\<^sup>2 - (c2 i)\<^sup>2) - (mu1 + mu2) * (c1 i - c2 i)\<^sup>2"
      unfolding d_def by (simp add: algebra_simps power2_eq_square)
    ultimately show "d i * (mu2 * c2 i - mu1 * c1 i) \<le> (mu2 - mu1) / 2 * ((c1 i)\<^sup>2 - (c2 i)\<^sup>2)"
      by simp
  qed
  also have "\<dots> = (mu2 - mu1) / 2 * ((\<Sum>i<n. (c1 i)\<^sup>2) - (\<Sum>i<n. (c2 i)\<^sup>2))"
    by (simp only: sum_subtractf [symmetric] sum_distrib_left)
  finally have "0 \<le> (mu2 - mu1) / 2 * ((\<Sum>i<n. (c1 i)\<^sup>2) - (\<Sum>i<n. (c2 i)\<^sup>2))" .
  moreover have "0 < (mu2 - mu1) / 2" using mu by simp
  ultimately have "0 \<le> (\<Sum>i<n. (c1 i)\<^sup>2) - (\<Sum>i<n. (c2 i)\<^sup>2)"
    by (simp add: zero_le_mult_iff)
  then show ?thesis by simp
qed

lemma ridge_unique:
  fixes a :: "nat \<Rightarrow> nat \<Rightarrow> real" and c1 c2 r :: "nat \<Rightarrow> real"
  assumes w: "0 \<le> w" and mu: "0 < mu"
    and e1: "\<And>i. i < n \<Longrightarrow> (\<Sum>j<n. (\<Sum>q<m. a q i * w * a q j) * c1 j) + mu * c1 i = r i"
    and e2: "\<And>i. i < n \<Longrightarrow> (\<Sum>j<n. (\<Sum>q<m. a q i * w * a q j) * c2 j) + mu * c2 i = r i"
    and i: "i < n"
  shows "c1 i = c2 i"
proof -
  define d where "d i = c1 i - c2 i" for i
  let ?S = "\<lambda>i j. (\<Sum>q<m. a q i * w * a q j)"
  have Sd: "(\<Sum>j<n. ?S i j * d j) = - mu * d i" if "i < n" for i
  proof -
    have "(\<Sum>j<n. ?S i j * d j) = (\<Sum>j<n. ?S i j * c1 j) - (\<Sum>j<n. ?S i j * c2 j)"
      unfolding d_def by (simp add: right_diff_distrib sum_subtractf)
    moreover have "- mu * d i = mu * c2 i - mu * c1 i"
      unfolding d_def by (simp add: algebra_simps)
    ultimately show ?thesis using e1 [OF that] e2 [OF that] by linarith
  qed
  have "0 \<le> w * (\<Sum>q<m. (\<Sum>i<n. a q i * d i)\<^sup>2)"
    using w by (intro mult_nonneg_nonneg sum_nonneg) auto
  also have "\<dots> = (\<Sum>i<n. d i * (\<Sum>j<n. ?S i j * d j))"
    by (rule quad_form [symmetric])
  also have "\<dots> = (\<Sum>i<n. - mu * (d i)\<^sup>2)"
    by (intro sum.cong refl) (simp add: Sd power2_eq_square)
  also have "\<dots> = - mu * (\<Sum>i<n. (d i)\<^sup>2)"
    by (simp only: sum_distrib_left)
  finally have "mu * (\<Sum>i<n. (d i)\<^sup>2) \<le> 0" by simp
  with mu have "(\<Sum>i<n. (d i)\<^sup>2) \<le> 0"
    by (simp add: mult_le_0_iff)
  moreover have "0 \<le> (\<Sum>i<n. (d i)\<^sup>2)"
    by (intro sum_nonneg) simp
  ultimately have "(\<Sum>i<n. (d i)\<^sup>2) = 0" by simp
  then have "\<forall>i\<in>{..<n}. (d i)\<^sup>2 = 0"
    by (subst (asm) sum_nonneg_eq_0_iff) simp_all
  with i show ?thesis by (simp add: d_def)
qed

lemma AtOmegaAReg_nth:
  assumes "i < n" "j < n"
  shows "AtOmegaAReg_of n A (replicate (length A) w) mu ! i ! j =
           (\<Sum>r<length A. A ! r ! i * w * A ! r ! j) + mu * (if i = j then 1 else 0)"
proof -
  have "(\<Sum>r\<leftarrow>[0..<length A]. A ! r ! i * replicate (length A) w ! r * A ! r ! j) =
        (\<Sum>r\<leftarrow>[0..<length A]. A ! r ! i * w * A ! r ! j)"
    by (intro arg_cong [where f = sum_list] map_cong refl) simp
  then show ?thesis
    using assms by (simp add: AtOmegaAReg_of_def sum_list_upt_sum)
qed

lemma length_AtOmegaAReg [simp]: "length (AtOmegaAReg_of n A Omega mu) = n"
  by (simp add: AtOmegaAReg_of_def)

lemma length_AtOmegaAReg_row [simp]: "i < n \<Longrightarrow> length (AtOmegaAReg_of n A Omega mu ! i) = n"
  by (simp add: AtOmegaAReg_of_def)

lemma length_rhs_of [simp]: "length (rhs_of n A Omega b) = n"
  by (simp add: rhs_of_def)

lemma length_mat_vec [simp]: "length (mat_vec M x) = length M"
  by (simp add: mat_vec_def)

lemma mat_vec_AtOmegaAReg_nth:
  assumes "i < n"
  shows "mat_vec (AtOmegaAReg_of n A (replicate (length A) w) mu) c ! i =
           (\<Sum>j<n. (\<Sum>r<length A. A ! r ! i * w * A ! r ! j) * c ! j) + mu * c ! i"
proof -
  have "mat_vec (AtOmegaAReg_of n A (replicate (length A) w) mu) c ! i =
        (\<Sum>j<n. AtOmegaAReg_of n A (replicate (length A) w) mu ! i ! j * c ! j)"
    using assms by (simp add: mat_vec_def sum_list_upt_sum)
  also have "\<dots> = (\<Sum>j<n. ((\<Sum>r<length A. A ! r ! i * w * A ! r ! j) + mu * (if i = j then 1 else 0)) * c ! j)"
    using assms by (intro sum.cong refl) (simp add: AtOmegaAReg_nth)
  also have "\<dots> = (\<Sum>j<n. (\<Sum>r<length A. A ! r ! i * w * A ! r ! j) * c ! j)
                   + (\<Sum>j<n. if i = j then mu * c ! j else 0)"
    unfolding sum.distrib [symmetric] by (intro sum.cong refl) (simp add: algebra_simps)
  also have "(\<Sum>j<n. if i = j then mu * c ! j else 0) = mu * c ! i"
    using assms by (simp add: sum.delta')
  finally show ?thesis .
qed


section \<open>The examples, evaluated\<close>

lemma ex_cam_sel: "rows ex_cam = 3" "cols ex_cam = 4"
  "at_float ex_cam p q = (if (p = 0 \<and> q = 0) \<or> (p = 1 \<and> q = 1) \<or> (p = 2 \<and> q = 3) then 1 else 0)"
  by (simp_all add: ex_cam_def)

lemma ex_model_sel:
  "rescaled_pca_basis (get_shape_model ex_model) = [[1], [0], [0]]"
  "get_mean (get_shape_model ex_model) = [0, 0, 0]"
  "get_num_principal_components (get_shape_model ex_model) = 1"
  by (simp_all add: ex_model_def get_shape_model_def get_mean_def get_num_principal_components_def)

lemma ex_images: "images [ex_cam] [[(2, 0)]] [[0]] [[]] = [(ex_cam, [(2, 0)], [0], [])]"
  by (simp add: images_def)

lemma ex_call_ok: "call_ok ex_model [ex_cam] [[(2, 0)]] [[0]] [[]] None None None"
  unfolding call_ok_def ex_images
  by (simp add: image_ok_def ex_cam_sel ex_model_sel num_coeffs_def effective_base_face_def
        spec_variance_def)

lemma ex_cpl: "cameras_per_landmark [(ex_cam, [(2, 0)], [0], [])] = [ex_cam]"
  by (simp add: cameras_per_landmark_def)

lemma ex_P: "spec_P [ex_cam] = [[1,0,0,0],[0,1,0,0],[0,0,0,1]]"
  by (simp add: spec_P_def P_coeff_def ex_cam_sel upt_rec)

lemma ex_V: "spec_V_hat_h ex_model 1 [(ex_cam, [(2, 0)], [0], [])] = [[1],[0],[0],[0]]"
  by (simp add: spec_V_hat_h_def V_block_def ex_model_sel)

lemma ex_A: "spec_A ex_model 1 [(ex_cam, [(2, 0)], [0], [])] = [[1],[0],[0]]"
  unfolding spec_A_def ex_cpl ex_P ex_V
  by (simp add: mat_mult_def upt_rec)

lemma ex_b: "spec_b ex_model [(ex_cam, [(2, 0)], [0], [])] = [-2, 0, 0]"
  unfolding spec_b_def ex_cpl ex_P
  by (simp add: spec_v_bar_def spec_y_def v_bar_block_def
      effective_base_face_def ex_model_sel mat_vec_def upt_rec)

lemma ex_Omega: "spec_Omega [(ex_cam, [(2, 0)], [0], [])] None None = [1/3, 1/3, 1/3]"
  by (simp add: spec_Omega_def ex_cpl spec_variance_def numeral_eq_Suc)

lemma ex_M: "AtOmegaAReg_of 1 [[1],[0],[0]] [1/3, 1/3, 1/3] lam = [[1/3 + lam]]"
  by (simp add: AtOmegaAReg_of_def upt_rec)

lemma ex_rhs: "rhs_of 1 [[1],[0],[0]] [1/3, 1/3, 1/3] [-2, 0, 0] = [2/3]"
  by (simp add: rhs_of_def upt_rec)

lemma ex_num_coeffs: "num_coeffs ex_model None = 1"
  by (simp add: num_coeffs_def ex_model_sel)

lemma ex_system:
  "AtOmegaAReg_of (num_coeffs ex_model None)
     (spec_A ex_model (num_coeffs ex_model None) (images [ex_cam] [[(2, 0)]] [[0]] [[]]))
     (spec_Omega (images [ex_cam] [[(2, 0)]] [[0]] [[]]) None None) lam = [[1/3 + lam]]"
  unfolding ex_num_coeffs ex_images ex_A ex_Omega by (rule ex_M)

lemma ex_system_rhs:
  "rhs_of (num_coeffs ex_model None)
     (spec_A ex_model (num_coeffs ex_model None) (images [ex_cam] [[(2, 0)]] [[0]] [[]]))
     (spec_Omega (images [ex_cam] [[(2, 0)]] [[0]] [[]]) None None)
     (spec_b ex_model (images [ex_cam] [[(2, 0)]] [[0]] [[]])) = [2/3]"
  unfolding ex_num_coeffs ex_images ex_A ex_Omega ex_b by (rule ex_rhs)

section \<open>Failures of the loop\<close>


lemma process_image_InrD:
  assumes "process_image mm n cams lms vids bases k st = Inr st'"
  shows "length (lms ! k) = length (vids ! k) \<and> k < length bases"
  using assms unfolding process_image_def by (simp split: if_splits)

lemma image_loop_InrD:
  assumes "image_loop mm n cams lms vids bases M k st = Inr st'" and "k \<le> j" and "j < M"
  shows "length (lms ! j) = length (vids ! j) \<and> j < length bases"
  using assms
proof (induction mm n cams lms vids bases M k st rule: image_loop.induct)
  case (1 mm n cams lms vids bases M k st)
  from "1.prems" have kM: "k < M" by simp
  from "1.prems"(1) kM obtain s where
    p: "process_image mm n cams lms vids bases k st = Inr s" and
    l: "image_loop mm n cams lms vids bases M (k + 1) s = Inr st'"
    by (subst (asm) image_loop.simps) (auto split: sum.splits)
  show ?case
  proof (cases "j = k")
    case True
    with p show ?thesis by (simp add: process_image_InrD)
  next
    case False
    with "1.prems" have "k + 1 \<le> j" by simp
    with "1.IH" [OF kM p l] "1.prems"(3) show ?thesis by simp
  qed
qed

lemma fit_InrD:
  assumes "fit_shape_to_landmarks_linear_multi solve mm cams lms vids bases lambda ncf dsd msd = Inr c"
  shows "length cams = length lms \<and> length lms = length vids \<and> length cams \<le> length bases
         \<and> (\<forall>j<length lms. length (lms ! j) = length (vids ! j))"
proof -
  from assms have len: "length cams = length lms" "length lms = length vids"
    unfolding fit_shape_to_landmarks_linear_multi_def by (auto split: if_splits)
  from assms len obtain st where
    "image_loop mm (num_coeffs mm ncf) cams lms vids bases (length cams) 0
       (initial_state (num_coeffs mm ncf) (sum_list (map length lms))) = Inr st"
    unfolding fit_shape_to_landmarks_linear_multi_def Let_def num_coeffs_def
    by (auto split: sum.splits)
  from image_loop_InrD [OF this] have "\<forall>j<length cams. length (lms ! j) = length (vids ! j) \<and> j < length bases"
    by simp
  moreover from this have "length cams \<le> length bases"
    by (metis not_less order_refl less_irrefl linorder_le_less_linear)
  ultimately show ?thesis using len by simp
qed



lemma fit_image_loop_Inl:
  assumes "length cams = length lms" "length lms = length vids"
    and "image_loop mm (num_coeffs mm ncf) cams lms vids bases (length cams) 0
           (initial_state (num_coeffs mm ncf) (sum_list (map length lms))) = Inl e"
  shows "fit_shape_to_landmarks_linear_multi solve mm cams lms vids bases lambda ncf dsd msd = Inl e"
  using assms
  unfolding fit_shape_to_landmarks_linear_multi_def Let_def num_coeffs_def [symmetric]
  by simp


lemma ex_flat_model_sel:
  "rescaled_pca_basis (get_shape_model ex_flat_model) = [[0], [0], [0]]"
  "get_mean (get_shape_model ex_flat_model) = [0, 0, 0]"
  "get_num_principal_components (get_shape_model ex_flat_model) = 1"
  by (simp_all add: ex_flat_model_def get_shape_model_def get_mean_def
        get_num_principal_components_def)

lemma ex_flat_call_ok: "call_ok ex_flat_model [ex_cam] [[(2, 0)]] [[0]] [[]] None None None"
  unfolding call_ok_def ex_images
  by (simp add: image_ok_def ex_cam_sel ex_flat_model_sel num_coeffs_def effective_base_face_def
        spec_variance_def)

lemma ex_flat_num_coeffs: "num_coeffs ex_flat_model None = 1"
  by (simp add: num_coeffs_def ex_flat_model_sel)

lemma ex_flat_A: "spec_A ex_flat_model 1 [(ex_cam, [(2, 0)], [0], [])] = [[0],[0],[0]]"
  unfolding spec_A_def ex_cpl ex_P
  by (simp add: spec_V_hat_h_def V_block_def ex_flat_model_sel mat_mult_def upt_rec)

lemma ex_flat_b: "spec_b ex_flat_model [(ex_cam, [(2, 0)], [0], [])] = [-2, 0, 0]"
  unfolding spec_b_def ex_cpl ex_P
  by (simp add: spec_v_bar_def spec_y_def v_bar_block_def
      effective_base_face_def ex_flat_model_sel mat_vec_def upt_rec)

lemma ex_flat_system:
  "AtOmegaAReg_of (num_coeffs ex_flat_model None)
     (spec_A ex_flat_model (num_coeffs ex_flat_model None) (images [ex_cam] [[(2, 0)]] [[0]] [[]]))
     (spec_Omega (images [ex_cam] [[(2, 0)]] [[0]] [[]]) None None) lam = [[lam]]"
  unfolding ex_flat_num_coeffs ex_images ex_flat_A ex_Omega
  by (simp add: AtOmegaAReg_of_def upt_rec)

lemma ex_flat_system_rhs:
  "rhs_of (num_coeffs ex_flat_model None)
     (spec_A ex_flat_model (num_coeffs ex_flat_model None) (images [ex_cam] [[(2, 0)]] [[0]] [[]]))
     (spec_Omega (images [ex_cam] [[(2, 0)]] [[0]] [[]]) None None)
     (spec_b ex_flat_model (images [ex_cam] [[(2, 0)]] [[0]] [[]])) = [0]"
  unfolding ex_flat_num_coeffs ex_images ex_flat_A ex_Omega ex_flat_b
  by (simp add: rhs_of_def upt_rec)

lemma effective_base_face_idem:
  "(if length (effective_base_face mm b) = 0 then get_mean (get_shape_model mm)
    else effective_base_face mm b) =
   (if length b = 0 then get_mean (get_shape_model mm) else b)"
  by (simp add: effective_base_face_def)

lemma process_image_effective_base_face:
  "process_image mm n cams lms vids (map (effective_base_face mm) bases) k st =
   process_image mm n cams lms vids bases k st"
proof (cases "k < length bases")
  case True
  show ?thesis
    unfolding process_image_def length_map nth_map [OF True] effective_base_face_idem ..
next
  case False
  then show ?thesis by (simp add: process_image_def)
qed

lemma image_loop_effective_base_face:
  "image_loop mm n cams lms vids (map (effective_base_face mm) bases) M k st =
   image_loop mm n cams lms vids bases M k st"
proof (induction mm n cams lms vids bases M k st rule: image_loop.induct)
  case (1 mm n cams lms vids bases M k st)
  show ?case
  proof (cases "k < M")
    case True
    show ?thesis
    proof (cases "process_image mm n cams lms vids bases k st")
      case (Inl e)
      then show ?thesis
        using True
        by (simp add: image_loop.simps [where k = k] process_image_effective_base_face)
    next
      case (Inr s)
      from "1.IH" [OF True Inr] Inr True show ?thesis
        by (simp add: image_loop.simps [where k = k] process_image_effective_base_face)
    qed
  next
    case False
    then show ?thesis by (simp add: image_loop.simps)
  qed
qed

lemma empty_base_face_entry_is_the_mean:
  "fit_shape_to_landmarks_linear_multi solve mm cams lms vids bases lambda ncf dsd msd =
   fit_shape_to_landmarks_linear_multi solve mm cams lms vids
     (map (\<lambda>bf. if length bf = 0 then get_mean (get_shape_model mm) else bf) bases)
     lambda ncf dsd msd"
  using image_loop_effective_base_face [of mm _ cams lms vids bases]
  unfolding fit_shape_to_landmarks_linear_multi_def effective_base_face_def [abs_def]
  by simp

lemma sum_list_map_nth: "(\<Sum>x\<leftarrow>xs. f x) = (\<Sum>i<length xs. f (xs ! i))"
proof -
  have "map (\<lambda>i. f (xs ! i)) [0..<length xs] = map f (map ((!) xs) [0..<length xs])"
    unfolding map_map by (simp add: comp_def)
  then have "map f xs = map (\<lambda>i. f (xs ! i)) [0..<length xs]"
    unfolding map_nth by simp
  then show ?thesis unfolding sum_list_upt_sum [symmetric] by simp
qed

lemma length_spec_A [simp]: "length (spec_A mm n ims) = 3 * length (cameras_per_landmark ims)"
  by (simp add: spec_A_def mat_mult_def spec_P_def)

lemma spec_variance_nonneg: "0 \<le> spec_variance dsd msd"
  by (simp add: spec_variance_def split: option.splits)

lemma spec_Omega_replicate:
  "spec_Omega ims dsd msd = replicate (length (spec_A mm n ims)) (1 / spec_variance dsd msd)"
  by (simp add: spec_Omega_def)

lemma solves_nth:
  assumes "solves solve (AtOmegaAReg_of n A (replicate (length A) w) mu) (rhs_of n A Omega b)"
    and "i < n"
  shows "(\<Sum>j<n. (\<Sum>r<length A. A ! r ! i * w * A ! r ! j) * solve (AtOmegaAReg_of n A (replicate (length A) w) mu) (rhs_of n A Omega b) ! j)
           + mu * solve (AtOmegaAReg_of n A (replicate (length A) w) mu) (rhs_of n A Omega b) ! i
         = rhs_of n A Omega b ! i"
  using assms(1) mat_vec_AtOmegaAReg_nth [OF assms(2), of A w mu]
  unfolding solves_def by metis

section \<open>The rows of \<open>A\<close> and \<open>b\<close>, correspondence by correspondence\<close>












section \<open>Copies of one image\<close>
















section \<open>Landmarks that are exact projections\<close>



















section \<open>The normal equations of the specification and lines 162-163\<close>

lemma sum_list_pick:
  fixes f :: "nat \<Rightarrow> real"
  assumes "c < m"
  shows "(\<Sum>j\<leftarrow>[0..<m]. f j * (if j = c then w j else 0)) = f c * w c"
proof -
  have "(\<Sum>j\<leftarrow>[0..<m]. f j * (if j = c then w j else 0))
      = (\<Sum>j\<in>{0..<m}. if j = c then f j * w j else 0)"
    unfolding interv_sum_list_conv_sum_set_nat by (intro sum.cong) simp_all
  also have "\<dots> = f c * w c"
    using assms by (simp add: sum.delta)
  finally show ?thesis .
qed

lemma sum_list_upt_cong:
  fixes f g :: "nat \<Rightarrow> real"
  assumes "\<And>j. j < m \<Longrightarrow> f j = g j"
  shows "(\<Sum>j\<leftarrow>[0..<m]. f j) = (\<Sum>j\<leftarrow>[0..<m]. g j)"
  by (intro arg_cong [where f = sum_list] map_cong refl) (simp add: assms)

lemma length_spec_At_Omega: "length (spec_At_Omega n A Omega) = n"
  by (simp add: spec_At_Omega_def mat_mult_def transpose_mat_def)

lemma spec_At_Omega_row:
  assumes "length Omega = length A" and "i < n"
  shows "spec_At_Omega n A Omega ! i = map (\<lambda>r. A ! r ! i * Omega ! r) [0..<length A]"
proof -
  have "spec_At_Omega n A Omega ! i
      = map (\<lambda>c. \<Sum>j\<leftarrow>[0..<length A]. map (\<lambda>r. A ! r ! i) [0..<length A] ! j
                                       * diag_mat Omega ! j ! c) [0..<length A]"
    using assms(2) by (simp add: spec_At_Omega_def mat_mult_def transpose_mat_def)
  also have "\<dots> = map (\<lambda>c. \<Sum>j\<leftarrow>[0..<length A]. A ! j ! i * (if j = c then Omega ! j else 0))
                      [0..<length A]"
  proof (intro map_cong refl sum_list_upt_cong)
    fix c j assume "c \<in> set [0..<length A]" "j < length A"
    then show "map (\<lambda>r. A ! r ! i) [0..<length A] ! j * diag_mat Omega ! j ! c
        = A ! j ! i * (if j = c then Omega ! j else 0)"
      using assms(1) by (simp add: diag_mat_def)
  qed
  also have "\<dots> = map (\<lambda>r. A ! r ! i * Omega ! r) [0..<length A]"
    by (intro map_cong refl sum_list_pick) simp
  finally show ?thesis .
qed

lemma spec_At_Omega_A_row:
  assumes "length Omega = length A" and "i < n"
  shows "spec_At_Omega_A n A Omega ! i
      = map (\<lambda>c. \<Sum>j\<leftarrow>[0..<length A]. A ! j ! i * Omega ! j * A ! j ! c) [0..<n]"
proof -
  have "spec_At_Omega_A n A Omega ! i
      = map (\<lambda>c. \<Sum>j\<leftarrow>[0..<length A]. map (\<lambda>r. A ! r ! i * Omega ! r) [0..<length A] ! j
                                       * A ! j ! c) [0..<n]"
    using assms(2)
    by (simp add: spec_At_Omega_A_def mat_mult_def length_spec_At_Omega spec_At_Omega_row [OF assms])
  also have "\<dots> = map (\<lambda>c. \<Sum>j\<leftarrow>[0..<length A]. A ! j ! i * Omega ! j * A ! j ! c) [0..<n]"
    by (intro map_cong refl sum_list_upt_cong) simp
  finally show ?thesis .
qed

lemma map2_same:
  "map2 f (map g xs) (map h xs) = map (\<lambda>x. f (g x) (h x)) xs"
  by (induction xs) simp_all

lemma spec_normal_matrix_code:
  assumes "length Omega = length A"
  shows "spec_normal_matrix n A Omega lam = AtOmegaAReg_of n A Omega lam"
proof (rule nth_equalityI)
  have l: "length (spec_At_Omega_A n A Omega) = n"
    by (simp add: spec_At_Omega_A_def mat_mult_def length_spec_At_Omega)
  show len: "length (spec_normal_matrix n A Omega lam) = length (AtOmegaAReg_of n A Omega lam)"
    by (simp add: spec_normal_matrix_def mat_add_def scale_mat_def identity_mat_def l
        AtOmegaAReg_of_def)
  fix i assume "i < length (spec_normal_matrix n A Omega lam)"
  with len have i: "i < n" by (simp add: AtOmegaAReg_of_def)
  have "spec_normal_matrix n A Omega lam ! i
      = map2 (+) (spec_At_Omega_A n A Omega ! i)
                 (map (\<lambda>j. lam * (if i = j then 1 else 0)) [0..<n])"
    using i by (simp add: spec_normal_matrix_def mat_add_def l scale_mat_def identity_mat_def
        comp_def)
  also have "\<dots> = map (\<lambda>c. (\<Sum>j\<leftarrow>[0..<length A]. A ! j ! i * Omega ! j * A ! j ! c)
                          + lam * (if i = c then 1 else 0)) [0..<n]"
    unfolding spec_At_Omega_A_row [OF assms i] by (rule map2_same)
  also have "\<dots> = AtOmegaAReg_of n A Omega lam ! i"
    using i by (simp add: AtOmegaAReg_of_def)
  finally show "spec_normal_matrix n A Omega lam ! i = AtOmegaAReg_of n A Omega lam ! i" .
qed

lemma spec_normal_rhs_code:
  assumes "length Omega = length A"
  shows "spec_normal_rhs n A Omega b = rhs_of n A Omega b"
proof (rule nth_equalityI)
  show len: "length (spec_normal_rhs n A Omega b) = length (rhs_of n A Omega b)"
    by (simp add: spec_normal_rhs_def mat_vec_def length_spec_At_Omega rhs_of_def)
  fix i assume "i < length (spec_normal_rhs n A Omega b)"
  with len have i: "i < n" by (simp add: rhs_of_def)
  have "(\<Sum>j\<leftarrow>[0..<length A]. map (\<lambda>r. A ! r ! i * Omega ! r) [0..<length A] ! j * b ! j)
      = (\<Sum>j\<leftarrow>[0..<length A]. A ! j ! i * Omega ! j * b ! j)"
    by (intro sum_list_upt_cong) simp
  then show "spec_normal_rhs n A Omega b ! i = rhs_of n A Omega b ! i"
    using i by (simp add: spec_normal_rhs_def mat_vec_def length_spec_At_Omega
        spec_At_Omega_row [OF assms i] rhs_of_def)
qed

lemma normal_matrix_unique:
  assumes w: "0 \<le> w" and mu: "0 < mu"
    and l1: "length c1 = n" and l2: "length c2 = n"
    and e1: "mat_vec (spec_normal_matrix n A (replicate (length A) w) mu) c1 = r"
    and e2: "mat_vec (spec_normal_matrix n A (replicate (length A) w) mu) c2 = r"
  shows "c1 = c2"
proof (rule nth_equalityI)
  show "length c1 = length c2" using l1 l2 by simp
  fix i assume "i < length c1"
  with l1 have i: "i < n" by simp
  have M: "spec_normal_matrix n A (replicate (length A) w) mu
      = AtOmegaAReg_of n A (replicate (length A) w) mu"
    by (rule spec_normal_matrix_code) simp
  have "(\<Sum>j<n. (\<Sum>q<length A. A ! q ! k * w * A ! q ! j) * c ! j) + mu * c ! k = r ! k"
    if "k < n" "mat_vec (spec_normal_matrix n A (replicate (length A) w) mu) c = r" for k c
    using that unfolding M by (simp add: mat_vec_AtOmegaAReg_nth [symmetric])
  from ridge_unique [where a = "\<lambda>q k. A ! q ! k" and ?c1.0 = "\<lambda>j. c1 ! j" and ?c2.0 = "\<lambda>j. c2 ! j"
      and r = "\<lambda>k. r ! k", OF w mu this [OF _ e1] this [OF _ e2] i]
  show "c1 ! i = c2 ! i" .
qed

lemma length_spec_normal_rhs: "length (spec_normal_rhs n A Omega b) = n"
  by (simp add: spec_normal_rhs_def mat_vec_def length_spec_At_Omega)

lemma length_spec_Omega: "length (spec_Omega ims dsd msd) = length (spec_A mm n ims)"
  by (simp add: spec_Omega_def)

lemma fit_spec:
  assumes "call_ok mm cams lms vids bases ncf dsd msd"
  defines "ims \<equiv> images cams lms vids bases" and "n \<equiv> num_coeffs mm ncf"
  shows "fit_shape_to_landmarks_linear_multi solve mm cams lms vids bases lambda ncf dsd msd =
           Inr (solve (spec_normal_matrix n (spec_A mm n ims) (spec_Omega ims dsd msd)
                         (lambda * real (length cams)))
                      (spec_normal_rhs n (spec_A mm n ims) (spec_Omega ims dsd msd) (spec_b mm ims)))"
  unfolding ims_def n_def fit_closed [OF assms(1)]
    spec_normal_matrix_code [OF length_spec_Omega] spec_normal_rhs_code [OF length_spec_Omega] ..

section \<open>An example with two coefficients and two images\<close>

lemma ex_wide_model_sel:
  "rescaled_pca_basis (get_shape_model ex_wide_model)
     = [[1, 0], [0, 1], [0, 0], [1, 1], [0, 2], [0, 0]]"
  "get_mean (get_shape_model ex_wide_model) = [0, 0, 0, 1, 1, 0]"
  "get_num_principal_components (get_shape_model ex_wide_model) = 2"
  by (simp_all add: ex_wide_model_def get_shape_model_def get_mean_def
      get_num_principal_components_def)

lemma ex_wide_num_coeffs: "num_coeffs ex_wide_model None = 2"
  by (simp add: num_coeffs_def ex_wide_model_sel)

lemma ex_wide_images_eq:
  "images [ex_cam, ex_cam] [[(2, 0), (1, 3)], [(0, 1)]] [[0, 1], [0]] [[], [1, 0, 0, 0, 0, 0]]
     = ex_wide_images"
  by (simp add: images_def ex_wide_images_def)

lemma ex_wide_call_ok:
  "call_ok ex_wide_model [ex_cam, ex_cam] [[(2, 0), (1, 3)], [(0, 1)]] [[0, 1], [0]]
     [[], [1, 0, 0, 0, 0, 0]] None None None"
  unfolding call_ok_def ex_wide_images_eq
  by (simp add: ex_wide_images_def image_ok_def ex_cam_sel ex_wide_model_sel num_coeffs_def
        effective_base_face_def spec_variance_def)

lemma ex_wide_cpl: "cameras_per_landmark ex_wide_images = [ex_cam, ex_cam, ex_cam]"
  by (simp add: cameras_per_landmark_def ex_wide_images_def numeral_2_eq_2)

lemma upt_2: "[0..<2] = [0, 1]"
  by (simp add: upt_rec numeral_2_eq_2)

lemma upt_3: "[0..<3] = [0, 1, 2]"
  by (simp add: upt_rec)

lemma upt_12: "[0..<12] = [0, 1, 2, 3, 4, 5, 6, 7, 8, 9, 10, 11]"
  by (simp add: upt_rec)

lemma upt_9: "[0..<9] = [0, 1, 2, 3, 4, 5, 6, 7, 8]"
  by (simp add: upt_rec)

lemma ex_wide_P:
  "spec_P [ex_cam, ex_cam, ex_cam] =
     [[1,0,0,0, 0,0,0,0, 0,0,0,0],
      [0,1,0,0, 0,0,0,0, 0,0,0,0],
      [0,0,0,1, 0,0,0,0, 0,0,0,0],
      [0,0,0,0, 1,0,0,0, 0,0,0,0],
      [0,0,0,0, 0,1,0,0, 0,0,0,0],
      [0,0,0,0, 0,0,0,1, 0,0,0,0],
      [0,0,0,0, 0,0,0,0, 1,0,0,0],
      [0,0,0,0, 0,0,0,0, 0,1,0,0],
      [0,0,0,0, 0,0,0,0, 0,0,0,1]]"
  by (simp add: spec_P_def P_coeff_def ex_cam_sel upt_9 upt_12)

lemma ex_wide_V:
  "spec_V_hat_h ex_wide_model 2 ex_wide_images =
     [[1, 0], [0, 1], [0, 0], [0, 0], [1, 1], [0, 2], [0, 0], [0, 0], [1, 0], [0, 1], [0, 0], [0, 0]]"
  by (simp add: spec_V_hat_h_def V_block_def ex_wide_model_sel ex_wide_images_def numeral_2_eq_2)

lemma ex_wide_A:
  "spec_A ex_wide_model 2 ex_wide_images =
     [[1, 0], [0, 1], [0, 0], [1, 1], [0, 2], [0, 0], [1, 0], [0, 1], [0, 0]]"
  unfolding spec_A_def ex_wide_cpl ex_wide_P ex_wide_V
  by (simp add: mat_mult_def upt_12 upt_2)

lemma ex_wide_b:
  "spec_b ex_wide_model ex_wide_images = [- 2, 0, 0, 0, - 2, 0, 1, - 1, 0]"
  unfolding spec_b_def ex_wide_cpl ex_wide_P
  by (simp add: spec_v_bar_def spec_y_def v_bar_block_def ex_wide_images_def
      effective_base_face_def ex_wide_model_sel mat_vec_def upt_12)

lemma ex_wide_Omega:
  "spec_Omega ex_wide_images None None = [1/3, 1/3, 1/3, 1/3, 1/3, 1/3, 1/3, 1/3, 1/3]"
  by (simp add: spec_Omega_def ex_wide_cpl spec_variance_def numeral_eq_Suc)


lemma ex_wide_At_Omega_A:
  "spec_At_Omega_A 2 [[1, 0], [0, 1], [0, 0], [1, 1], [0, 2], [0, 0], [1, 0], [0, 1], [0, 0]]
     [1/3, 1/3, 1/3, 1/3, 1/3, 1/3, 1/3, 1/3, 1/3] = [[1, 1/3], [1/3, 7/3]]"
  by (simp add: spec_At_Omega_A_def spec_At_Omega_def mat_mult_def transpose_mat_def
      diag_mat_def upt_9 upt_2)

lemma ex_wide_rhs:
  "spec_normal_rhs 2 [[1, 0], [0, 1], [0, 0], [1, 1], [0, 2], [0, 0], [1, 0], [0, 1], [0, 0]]
     [1/3, 1/3, 1/3, 1/3, 1/3, 1/3, 1/3, 1/3, 1/3] [- 2, 0, 0, 0, - 2, 0, 1, - 1, 0]
   = [1/3, 5/3]"
  by (simp add: spec_normal_rhs_def spec_At_Omega_def mat_mult_def transpose_mat_def
      diag_mat_def mat_vec_def upt_9 upt_2)

lemma ex_wide_code_matrix:
  "AtOmegaAReg_of 2 [[1, 0], [0, 1], [0, 0], [1, 1], [0, 2], [0, 0], [1, 0], [0, 1], [0, 0]]
     [1/3, 1/3, 1/3, 1/3, 1/3, 1/3, 1/3, 1/3, 1/3] lam = [[1 + lam, 1/3], [1/3, 7/3 + lam]]"
  by (simp add: AtOmegaAReg_of_def upt_9 upt_2)

lemma ex_wide_code_rhs:
  "rhs_of 2 [[1, 0], [0, 1], [0, 0], [1, 1], [0, 2], [0, 0], [1, 0], [0, 1], [0, 0]]
     [1/3, 1/3, 1/3, 1/3, 1/3, 1/3, 1/3, 1/3, 1/3] [- 2, 0, 0, 0, - 2, 0, 1, - 1, 0]
   = [1/3, 5/3]"
  by (simp add: rhs_of_def upt_9 upt_2)

lemma ex_wide_fit:
  "fit_shape_to_landmarks_linear_multi solve ex_wide_model [ex_cam, ex_cam]
     [[(2, 0), (1, 3)], [(0, 1)]] [[0, 1], [0]] [[], [1, 0, 0, 0, 0, 0]] lam None None None
   = Inr (solve [[1 + lam * 2, 1/3], [1/3, 7/3 + lam * 2]] [1/3, 5/3])"
  unfolding fit_closed [OF ex_wide_call_ok] ex_wide_num_coeffs ex_wide_images_eq ex_wide_A
    ex_wide_Omega ex_wide_b ex_wide_code_matrix ex_wide_code_rhs
  by simp

lemma ex_wide_weighted:
  "mat_add [[1, 1/3], [1/3, 7/3]] (scale_mat lam (identity_mat 2))
     = [[1 + lam, 1/3], [1/3, 7/3 + lam]]"
  by (simp add: mat_add_def scale_mat_def identity_mat_def upt_2)


section \<open>The claims\<close>

subsection \<open>C1\<close>

text \<open>
  C1. For a well-formed call (matching lengths, a base face entry per image) on whose system the
  solver does its work, the function returns a vector \<open>c\<close> of the regularised normal equations
  \<open>(A\<^sup>t Omega A + lambda' I) c = - A\<^sup>t Omega b\<close>, with \<open>A = P V_hat_h\<close>, \<open>b = P v_bar - y\<close>, the
  matrices \<open>V_hat_h\<close>, \<open>P\<close>, \<open>y\<close>, \<open>v_bar\<close> and \<open>Omega\<close> as the specification describes them,
  the variances \<open>3\<close> and \<open>0\<close> when not given, and \<open>lambda' = lambda * M\<close>. The two sides of the
  equation are formed with the transpose, the diagonal matrix, the identity, the products and
  the sum of matrices. With a positive \<open>lambda'\<close> and a positive variance the equations have no
  other solution of that length, so the returned vector is the solution.
\<close>
theorem fit_solves_normal_equations:
  fixes mm ncf cams lms vids bases dsd msd lambda
  defines "n \<equiv> num_coeffs mm ncf" and "ims \<equiv> images cams lms vids bases"
  defines "A \<equiv> spec_A mm n ims" and "Omega \<equiv> spec_Omega ims dsd msd"
    and "b \<equiv> spec_b mm ims" and "lambda' \<equiv> lambda * real (length cams)"
  defines "M \<equiv> mat_add (mat_mult n (mat_mult (length A) (transpose_mat n A) (diag_mat Omega)) A)
                         (scale_mat lambda' (identity_mat n))"
    and "r \<equiv> map uminus (mat_vec (mat_mult (length A) (transpose_mat n A) (diag_mat Omega)) b)"
  assumes ok: "call_ok mm cams lms vids bases ncf dsd msd"
    and s: "solves solve M r"
  shows "\<exists>c. fit_shape_to_landmarks_linear_multi solve mm cams lms vids bases lambda ncf dsd msd
               = Inr c \<and>
             length c = n \<and> mat_vec M c = r \<and>
             (0 < lambda' \<and> 0 < spec_variance dsd msd \<longrightarrow>
                (\<forall>c'. length c' = n \<and> mat_vec M c' = r \<longrightarrow> c' = c))"
proof -
  have M: "M = spec_normal_matrix n A Omega lambda'"
    by (simp add: M_def spec_normal_matrix_def spec_At_Omega_A_def spec_At_Omega_def)
  have r: "r = spec_normal_rhs n A Omega b"
    by (simp add: r_def spec_normal_rhs_def spec_At_Omega_def)
  define c where "c = solve M r"
  have "fit_shape_to_landmarks_linear_multi solve mm cams lms vids bases lambda ncf dsd msd
      = Inr c"
    unfolding c_def M r unfolding A_def Omega_def b_def lambda'_def n_def ims_def
    using ok by (rule fit_spec)
  moreover from s have len: "length c = n"
    by (simp add: c_def solves_def r length_spec_normal_rhs)
  moreover from s have eq: "mat_vec M c = r"
    by (simp add: c_def solves_def)
  moreover have "c' = c"
    if pos: "0 < lambda'" "0 < spec_variance dsd msd"
      and c': "length c' = n" "mat_vec M c' = r" for c'
  proof -
    let ?w = "1 / spec_variance dsd msd"
    have Om: "Omega = replicate (length A) ?w"
      unfolding Omega_def A_def by (rule spec_Omega_replicate)
    have w: "0 \<le> ?w" using pos(2) by simp
    have e1: "mat_vec (spec_normal_matrix n A (replicate (length A) ?w) lambda') c' = r"
      using c'(2) unfolding M Om .
    have e2: "mat_vec (spec_normal_matrix n A (replicate (length A) ?w) lambda') c = r"
      using eq unfolding M Om .
    show ?thesis
      by (rule normal_matrix_unique [OF w pos(1) c'(1) len e1 e2])
  qed
  ultimately show ?thesis by blast
qed

theorem fit_solves_normal_equations_witness:
  "call_ok ex_wide_model [ex_cam, ex_cam] [[(2, 0), (1, 3)], [(0, 1)]] [[0, 1], [0]]
     [[], [1, 0, 0, 0, 0, 0]] None None None \<and>
   spec_A ex_wide_model 2 ex_wide_images
     = [[1, 0], [0, 1], [0, 0], [1, 1], [0, 2], [0, 0], [1, 0], [0, 1], [0, 0]] \<and>
   spec_b ex_wide_model ex_wide_images = [- 2, 0, 0, 0, - 2, 0, 1, - 1, 0] \<and>
   solves cramer_solve [[1 + 3 * 2, 1 / 3], [1 / 3, 7 / 3 + 3 * 2]] [1 / 3, 5 / 3] \<and>
   0 < 3 * real (length [ex_cam, ex_cam]) \<and> 0 < spec_variance None None \<and>
   fit_shape_to_landmarks_linear_multi cramer_solve ex_wide_model [ex_cam, ex_cam]
     [[(2, 0), (1, 3)], [(0, 1)]] [[0, 1], [0]] [[], [1, 0, 0, 0, 0, 0]] 3 None None None
     = Inr (cramer_solve [[1 + 3 * 2, 1 / 3], [1 / 3, 7 / 3 + 3 * 2]] [1 / 3, 5 / 3]) \<and>
   fit_shape_to_landmarks_linear_multi cramer_solve ex_wide_model [ex_cam, ex_cam]
     [[(2, 0), (1, 3)], [(0, 1)]] [[0, 1], [0]] [[], [1, 0, 0, 0, 0, 0]] 3 None None None
     = Inr [5 / 131, 26 / 131] \<and>
   mat_vec [[1 + 3 * 2, 1 / 3], [1 / 3, 7 / 3 + 3 * 2]] [5 / 131, 26 / 131] = [1 / 3, 5 / 3]"
proof -
  let ?M = "[[1 + 3 * 2, 1 / 3], [1 / 3, 7 / 3 + 3 * 2]] :: MatrixXf"
  let ?fit = "fit_shape_to_landmarks_linear_multi cramer_solve ex_wide_model [ex_cam, ex_cam]
        [[(2, 0), (1, 3)], [(0, 1)]] [[0, 1], [0]] [[], [1, 0, 0, 0, 0, 0]] 3 None None None"
  have M: "spec_normal_matrix (num_coeffs ex_wide_model None)
        (spec_A ex_wide_model (num_coeffs ex_wide_model None)
           (images [ex_cam, ex_cam] [[(2, 0), (1, 3)], [(0, 1)]] [[0, 1], [0]]
              [[], [1, 0, 0, 0, 0, 0]]))
        (spec_Omega (images [ex_cam, ex_cam] [[(2, 0), (1, 3)], [(0, 1)]] [[0, 1], [0]]
              [[], [1, 0, 0, 0, 0, 0]]) None None)
        (3 * real (length [ex_cam, ex_cam])) = ?M"
    unfolding ex_wide_num_coeffs ex_wide_images_eq ex_wide_A ex_wide_Omega spec_normal_matrix_def
      ex_wide_At_Omega_A ex_wide_weighted by simp
  have r: "spec_normal_rhs (num_coeffs ex_wide_model None)
        (spec_A ex_wide_model (num_coeffs ex_wide_model None)
           (images [ex_cam, ex_cam] [[(2, 0), (1, 3)], [(0, 1)]] [[0, 1], [0]]
              [[], [1, 0, 0, 0, 0, 0]]))
        (spec_Omega (images [ex_cam, ex_cam] [[(2, 0), (1, 3)], [(0, 1)]] [[0, 1], [0]]
              [[], [1, 0, 0, 0, 0, 0]]) None None)
        (spec_b ex_wide_model
           (images [ex_cam, ex_cam] [[(2, 0), (1, 3)], [(0, 1)]] [[0, 1], [0]]
              [[], [1, 0, 0, 0, 0, 0]])) = [1 / 3, 5 / 3]"
    unfolding ex_wide_num_coeffs ex_wide_images_eq ex_wide_A ex_wide_Omega ex_wide_b
    by (rule ex_wide_rhs)
  have s: "solves cramer_solve ?M [1 / 3, 5 / 3]"
    by (simp add: solves_def mat_vec_def upt_2)
  have pos: "0 < 3 * real (length [ex_cam, ex_cam])" "0 < spec_variance None None"
    by (simp_all add: spec_variance_def)
  have sol: "length [5 / 131, 26 / 131 :: real] = 2"
      "mat_vec ?M [5 / 131, 26 / 131] = [1 / 3, 5 / 3]"
    by (simp_all add: mat_vec_def upt_2)
  have "\<exists>c. ?fit = Inr c \<and> length c = 2 \<and> mat_vec ?M c = [1 / 3, 5 / 3] \<and>
          (0 < 3 * real (length [ex_cam, ex_cam]) \<and> 0 < spec_variance None None \<longrightarrow>
             (\<forall>c'. length c' = 2 \<and> mat_vec ?M c' = [1 / 3, 5 / 3] \<longrightarrow> c' = c))"
    using fit_solves_normal_equations [OF ex_wide_call_ok, of cramer_solve 3]
    unfolding spec_normal_matrix_def [symmetric, unfolded spec_At_Omega_A_def spec_At_Omega_def]
      spec_normal_rhs_def [symmetric, unfolded spec_At_Omega_def]
    unfolding M r unfolding ex_wide_num_coeffs
    using s by blast
  then obtain c where f: "?fit = Inr c"
      and u: "\<forall>c'. length c' = 2 \<and> mat_vec ?M c' = [1 / 3, 5 / 3] \<longrightarrow> c' = c"
    using pos by blast
  from u sol have "[5 / 131, 26 / 131] = c" by blast
  with f have v: "?fit = Inr [5 / 131, 26 / 131]" by simp
  have code: "?fit = Inr (cramer_solve ?M [1 / 3, 5 / 3])"
    unfolding ex_wide_fit by simp
  from ex_wide_call_ok ex_wide_A ex_wide_b s pos code v sol(2) show ?thesis
    by (intro conjI)
qed

subsection \<open>C2\<close>



subsection \<open>C3\<close>




subsection \<open>C4\<close>

text \<open>
  C4 fails on the code: with a basis that does not move the landmark's vertex and \<open>lambda = 0\<close>
  the matrix of the normal equations is the zero matrix (the vector \<open>[1]\<close> is in its kernel),
  and the call returns the solver's vector; no failure is raised.
\<close>
theorem singular_system_returns_a_vector:
  "mat_vec (AtOmegaAReg_of 1 (spec_A ex_flat_model 1 (images [ex_cam] [[(2, 0)]] [[0]] [[]]))
              (spec_Omega (images [ex_cam] [[(2, 0)]] [[0]] [[]]) None None) (0 * real 1)) [1]
     = [0] \<and>
   fit_shape_to_landmarks_linear_multi cramer_solve ex_flat_model [ex_cam] [[(2, 0)]] [[0]] [[]] 0
     None None None = Inr [0]"
proof -
  have "fit_shape_to_landmarks_linear_multi cramer_solve ex_flat_model [ex_cam] [[(2, 0)]] [[0]]
      [[]] 0 None None None = Inr [0]"
    by (simp add: fit_shape_to_landmarks_linear_multi_def Let_def initial_state_def
      image_loop.simps process_image_def ex_flat_model_sel ex_cam_sel
      get_rescaled_pca_basis_at_point_def camera_triplets_def triplets_in_range_def
      sigma_squared_2D_of_def sparse_times_dense_def sparse_times_vector_def sparse_coeff_def
      AtOmegaAReg_of_def rhs_of_def upt_rec numeral_eq_Suc)
  moreover have "mat_vec (AtOmegaAReg_of 1 (spec_A ex_flat_model 1 (images [ex_cam] [[(2, 0)]] [[0]] [[]]))
              (spec_Omega (images [ex_cam] [[(2, 0)]] [[0]] [[]]) None None) (0 * real 1)) [1]
     = [0]"
    using ex_flat_system [of "0 * real 1"] unfolding ex_flat_num_coeffs
    by (simp add: mat_vec_def)
  ultimately show ?thesis by simp
qed

text \<open>
  C4, as the code has it. The function never tests the matrix of the normal equations: on a
  well-formed call whose matrix is singular (it has a non-zero vector \<open>x\<close> in its kernel) the
  function returns whatever the QR solve returns for that matrix and right-hand side.
\<close>
theorem singular_system_not_detected:
  fixes mm ncf cams lms vids bases
  defines "n \<equiv> num_coeffs mm ncf" and "ims \<equiv> images cams lms vids bases"
  assumes ok: "call_ok mm cams lms vids bases ncf dsd msd"
    and "length x = n" and "x \<noteq> replicate n 0"
    and "mat_vec (AtOmegaAReg_of n (spec_A mm n ims) (spec_Omega ims dsd msd)
                    (lambda * real (length cams))) x
         = replicate n 0"
  shows "fit_shape_to_landmarks_linear_multi solve mm cams lms vids bases lambda ncf dsd msd =
           Inr (solve (AtOmegaAReg_of n (spec_A mm n ims) (spec_Omega ims dsd msd)
                         (lambda * real (length cams)))
                      (rhs_of n (spec_A mm n ims) (spec_Omega ims dsd msd) (spec_b mm ims)))"
  unfolding n_def ims_def using ok by (rule fit_closed)

theorem singular_system_not_detected_witness:
  "call_ok ex_flat_model [ex_cam] [[(2, 0)]] [[0]] [[]] None None None \<and>
   length [1 :: real] = num_coeffs ex_flat_model None \<and>
   [1 :: real] \<noteq> replicate (num_coeffs ex_flat_model None) 0 \<and>
   mat_vec (AtOmegaAReg_of (num_coeffs ex_flat_model None)
              (spec_A ex_flat_model (num_coeffs ex_flat_model None)
                 (images [ex_cam] [[(2, 0)]] [[0]] [[]]))
              (spec_Omega (images [ex_cam] [[(2, 0)]] [[0]] [[]]) None None)
              (0 * real (length [ex_cam]))) [1]
     = replicate (num_coeffs ex_flat_model None) 0 \<and>
   fit_shape_to_landmarks_linear_multi cramer_solve ex_flat_model [ex_cam] [[(2, 0)]] [[0]] [[]] 0
     None None None = Inr [0]"
proof -
  have h2: "length [1 :: real] = num_coeffs ex_flat_model None"
    and h3: "[1 :: real] \<noteq> replicate (num_coeffs ex_flat_model None) 0"
    by (simp_all add: ex_flat_num_coeffs)
  have h4: "mat_vec (AtOmegaAReg_of (num_coeffs ex_flat_model None)
              (spec_A ex_flat_model (num_coeffs ex_flat_model None)
                 (images [ex_cam] [[(2, 0)]] [[0]] [[]]))
              (spec_Omega (images [ex_cam] [[(2, 0)]] [[0]] [[]]) None None)
              (0 * real (length [ex_cam]))) [1]
     = replicate (num_coeffs ex_flat_model None) 0"
    unfolding ex_flat_system by (simp add: ex_flat_num_coeffs mat_vec_def)
  from singular_system_not_detected [OF ex_flat_call_ok h2 h3 h4, of cramer_solve]
  have "fit_shape_to_landmarks_linear_multi cramer_solve ex_flat_model [ex_cam] [[(2, 0)]] [[0]]
      [[]] 0 None None None = Inr [0]"
    unfolding ex_flat_system ex_flat_system_rhs by simp
  with ex_flat_call_ok h2 h3 h4 show ?thesis by simp
qed

subsection \<open>C5\<close>

text \<open>
  C5. In a call with \<open>M\<close> images and the caller's \<open>lambda\<close>, the weight on the identity matrix
  of the normal equations is \<open>lambda * M\<close>: the function returns the solver's answer for the
  matrix \<open>A\<^sup>t Omega A + (lambda * M) I\<close>, where \<open>A\<close>, \<open>Omega\<close> and the right-hand side do not
  depend on \<open>lambda\<close>.
\<close>
theorem regularisation_weight_is_lambda_times_images:
  fixes mm ncf cams lms vids bases dsd msd
  defines "n \<equiv> num_coeffs mm ncf" and "ims \<equiv> images cams lms vids bases"
  defines "A \<equiv> spec_A mm n ims" and "Omega \<equiv> spec_Omega ims dsd msd" and "b \<equiv> spec_b mm ims"
  assumes ok: "call_ok mm cams lms vids bases ncf dsd msd"
  shows "fit_shape_to_landmarks_linear_multi solve mm cams lms vids bases lambda ncf dsd msd =
           Inr (solve (mat_add (spec_At_Omega_A n A Omega)
                               (scale_mat (lambda * real (length cams)) (identity_mat n)))
                      (spec_normal_rhs n A Omega b))"
  unfolding A_def Omega_def b_def n_def ims_def fit_spec [OF ok] spec_normal_matrix_def ..

theorem regularisation_weight_witness:
  "call_ok ex_wide_model [ex_cam, ex_cam] [[(2, 0), (1, 3)], [(0, 1)]] [[0, 1], [0]]
     [[], [1, 0, 0, 0, 0, 0]] None None None \<and>
   fit_shape_to_landmarks_linear_multi cramer_solve ex_wide_model [ex_cam, ex_cam]
     [[(2, 0), (1, 3)], [(0, 1)]] [[0, 1], [0]] [[], [1, 0, 0, 0, 0, 0]] 1 None None None
     = Inr (cramer_solve (mat_add [[1, 1 / 3], [1 / 3, 7 / 3]] (scale_mat (1 * 2) (identity_mat 2)))
              [1 / 3, 5 / 3]) \<and>
   mat_add [[1, 1 / 3], [1 / 3, 7 / 3]] (scale_mat (1 * 2) (identity_mat 2))
     = [[1 + 2, 1 / 3], [1 / 3, 7 / 3 + 2]] \<and>
   fit_shape_to_landmarks_linear_multi cramer_solve ex_wide_model [ex_cam, ex_cam]
     [[(2, 0), (1, 3)], [(0, 1)]] [[0, 1], [0]] [[], [1, 0, 0, 0, 0, 0]] 1 None None None
     = Inr [2 / 29, 11 / 29] \<and>
   cramer_solve [[1 + 1, 1 / 3], [1 / 3, 7 / 3 + 1]] [1 / 3, 5 / 3] = [5 / 59, 29 / 59]"
proof -
  have "fit_shape_to_landmarks_linear_multi cramer_solve ex_wide_model [ex_cam, ex_cam]
     [[(2, 0), (1, 3)], [(0, 1)]] [[0, 1], [0]] [[], [1, 0, 0, 0, 0, 0]] 1 None None None
     = Inr (cramer_solve (mat_add [[1, 1 / 3], [1 / 3, 7 / 3]] (scale_mat (1 * 2) (identity_mat 2)))
              [1 / 3, 5 / 3])"
    using regularisation_weight_is_lambda_times_images [OF ex_wide_call_ok, of cramer_solve 1]
    unfolding ex_wide_num_coeffs ex_wide_images_eq ex_wide_A ex_wide_Omega ex_wide_b
      ex_wide_At_Omega_A ex_wide_rhs
    by simp
  moreover have "fit_shape_to_landmarks_linear_multi cramer_solve ex_wide_model [ex_cam, ex_cam]
     [[(2, 0), (1, 3)], [(0, 1)]] [[0, 1], [0]] [[], [1, 0, 0, 0, 0, 0]] 1 None None None
     = Inr [2 / 29, 11 / 29]"
    unfolding ex_wide_fit by simp
  moreover have "mat_add [[1, 1 / 3], [1 / 3, 7 / 3]] (scale_mat (1 * 2) (identity_mat 2))
     = [[1 + 2, 1 / 3], [1 / 3, 7 / 3 + 2]]"
    unfolding ex_wide_weighted by simp
  moreover have "cramer_solve [[1 + 1, 1 / 3], [1 / 3, 7 / 3 + 1]] [1 / 3, 5 / 3]
     = [5 / 59, 29 / 59]"
    by simp
  ultimately show ?thesis
    using ex_wide_call_ok by (intro conjI)
qed

subsection \<open>C6\<close>




subsection \<open>C7\<close>

text \<open>
  C7. For every single-image input, \<open>fit_shape_to_landmarks_linear\<close> returns what
  \<open>fit_shape_to_landmarks_linear_multi\<close> returns on the one-element lists that hold this input
  (the same coefficient vector, or the same failure).
\<close>
theorem single_image_is_multi_on_singletons:
  "fit_shape_to_landmarks_linear solve morphable_model affine_camera_matrix landmarks vertex_ids
       base_face lambda num_coefficients_to_fit detector_standard_deviation model_standard_deviation
   = fit_shape_to_landmarks_linear_multi solve morphable_model [affine_camera_matrix] [landmarks]
       [vertex_ids] [base_face] lambda num_coefficients_to_fit detector_standard_deviation
       model_standard_deviation"
  by (simp add: fit_shape_to_landmarks_linear_def)

subsection \<open>C8\<close>

text \<open>
  C8. For one well-formed input and regularisation parameters \<open>0 \<le> lambda1 < lambda2\<close>, when
  the solver does its work on both systems, the coefficient vector returned with \<open>lambda2\<close> has
  a Euclidean norm at most that of the vector returned with \<open>lambda1\<close>.
\<close>
theorem regularisation_monotone:
  fixes mm ncf cams lms vids bases
  defines "n \<equiv> num_coeffs mm ncf" and "ims \<equiv> images cams lms vids bases"
  assumes ok: "call_ok mm cams lms vids bases ncf dsd msd"
    and l: "0 \<le> lambda1" "lambda1 < lambda2"
    and s1: "solves solve
               (AtOmegaAReg_of n (spec_A mm n ims) (spec_Omega ims dsd msd)
                  (lambda1 * real (length cams)))
               (rhs_of n (spec_A mm n ims) (spec_Omega ims dsd msd) (spec_b mm ims))"
    and s2: "solves solve
               (AtOmegaAReg_of n (spec_A mm n ims) (spec_Omega ims dsd msd)
                  (lambda2 * real (length cams)))
               (rhs_of n (spec_A mm n ims) (spec_Omega ims dsd msd) (spec_b mm ims))"
  shows "\<exists>c1 c2.
           fit_shape_to_landmarks_linear_multi solve mm cams lms vids bases lambda1 ncf dsd msd
             = Inr c1 \<and>
           fit_shape_to_landmarks_linear_multi solve mm cams lms vids bases lambda2 ncf dsd msd
             = Inr c2 \<and>
           euclidean_norm c2 \<le> euclidean_norm c1"
proof -
  define A where "A = spec_A mm n ims"
  define w where "w = 1 / spec_variance dsd msd"
  define r where "r = rhs_of n A (spec_Omega ims dsd msd) (spec_b mm ims)"
  define c1 where "c1 = solve (AtOmegaAReg_of n A (replicate (length A) w)
                                 (lambda1 * real (length cams))) r"
  define c2 where "c2 = solve (AtOmegaAReg_of n A (replicate (length A) w)
                                 (lambda2 * real (length cams))) r"
  have Om: "spec_Omega ims dsd msd = replicate (length A) w"
    unfolding A_def w_def by (rule spec_Omega_replicate)
  have f1: "fit_shape_to_landmarks_linear_multi solve mm cams lms vids bases lambda1 ncf dsd msd
             = Inr c1"
    and f2: "fit_shape_to_landmarks_linear_multi solve mm cams lms vids bases lambda2 ncf dsd msd
             = Inr c2"
    unfolding fit_closed [OF ok, folded n_def ims_def] c1_def c2_def r_def A_def
      Om [unfolded A_def]
    by simp_all
  have S1: "solves solve (AtOmegaAReg_of n A (replicate (length A) w)
                                 (lambda1 * real (length cams))) r"
    and S2: "solves solve (AtOmegaAReg_of n A (replicate (length A) w)
                                 (lambda2 * real (length cams))) r"
    using s1 s2 unfolding r_def A_def Om [unfolded A_def] by simp_all
  have len: "length c1 = n" "length c2 = n"
    using S1 S2 unfolding solves_def c1_def c2_def r_def by simp_all
  have w: "0 \<le> w"
    unfolding w_def using spec_variance_nonneg [of dsd msd] by simp
  have sq: "(\<Sum>i<n. (c2 ! i)\<^sup>2) \<le> (\<Sum>i<n. (c1 ! i)\<^sup>2)"
  proof (cases "length cams = 0")
    case True
    then have "c1 = c2" unfolding c1_def c2_def by simp
    then show ?thesis by simp
  next
    case False
    then have mu: "0 \<le> lambda1 * real (length cams)"
        "lambda1 * real (length cams) < lambda2 * real (length cams)"
      using l by simp_all
    show ?thesis
    proof (rule ridge_monotone [where a = "\<lambda>q i. A ! q ! i" and w = w and m = "length A"
          and r = "\<lambda>i. r ! i", OF w mu])
      fix i assume "i < n"
      then show "(\<Sum>j<n. (\<Sum>q<length A. A ! q ! i * w * A ! q ! j) * c1 ! j)
              + lambda1 * real (length cams) * c1 ! i = r ! i"
        using solves_nth [OF S1 [unfolded r_def]] unfolding c1_def r_def by simp
    next
      fix i assume "i < n"
      then show "(\<Sum>j<n. (\<Sum>q<length A. A ! q ! i * w * A ! q ! j) * c2 ! j)
              + lambda2 * real (length cams) * c2 ! i = r ! i"
        using solves_nth [OF S2 [unfolded r_def]] unfolding c2_def r_def by simp
    qed
  qed
  have "euclidean_norm c2 \<le> euclidean_norm c1"
    unfolding euclidean_norm_def using sq len by (simp add: sum_list_map_nth)
  with f1 f2 show ?thesis by blast
qed

theorem regularisation_monotone_witness:
  "call_ok ex_model [ex_cam] [[(2, 0)]] [[0]] [[]] None None None \<and>
   (0 :: real) \<le> 0 \<and> (0 :: real) < 3 \<and>
   solves cramer_solve [[1 / 3]] [2 / 3] \<and> solves cramer_solve [[1 / 3 + 3]] [2 / 3] \<and>
   fit_shape_to_landmarks_linear_multi cramer_solve ex_model [ex_cam] [[(2, 0)]] [[0]] [[]] 0
     None None None = Inr [2] \<and>
   fit_shape_to_landmarks_linear_multi cramer_solve ex_model [ex_cam] [[(2, 0)]] [[0]] [[]] 3
     None None None = Inr [1 / 5] \<and>
   euclidean_norm [1 / 5] \<le> euclidean_norm [2]"
proof -
  have s1: "solves cramer_solve [[1 / 3]] [2 / 3]" and s2: "solves cramer_solve [[1 / 3 + 3]] [2 / 3]"
    by (simp_all add: solves_def mat_vec_def)
  have f1: "fit_shape_to_landmarks_linear_multi cramer_solve ex_model [ex_cam] [[(2, 0)]] [[0]]
      [[]] 0 None None None = Inr [2]"
    and f2: "fit_shape_to_landmarks_linear_multi cramer_solve ex_model [ex_cam] [[(2, 0)]] [[0]]
      [[]] 3 None None None = Inr [1 / 5]"
    by (simp_all add: fit_closed [OF ex_call_ok] ex_system ex_system_rhs)
  have "\<exists>c1 c2.
      fit_shape_to_landmarks_linear_multi cramer_solve ex_model [ex_cam] [[(2, 0)]] [[0]] [[]] 0
        None None None = Inr c1 \<and>
      fit_shape_to_landmarks_linear_multi cramer_solve ex_model [ex_cam] [[(2, 0)]] [[0]] [[]] 3
        None None None = Inr c2 \<and>
      euclidean_norm c2 \<le> euclidean_norm c1"
    by (rule regularisation_monotone [OF ex_call_ok])
       (use s1 s2 in \<open>simp_all add: ex_system ex_system_rhs\<close>)
  with f1 f2 have "euclidean_norm [1 / 5] \<le> euclidean_norm [2]" by simp
  with s1 s2 f1 f2 ex_call_ok show ?thesis by simp
qed

subsection \<open>C9\<close>

text \<open>
  C9 at the failing input: one image and the default \<open>base_face\<close> argument, the empty list.
  The claim has the model mean used as the base face; the code reads \<open>base_face[0]\<close> of an
  empty vector.
\<close>
theorem absent_base_face_list_is_not_defaulted:
  "fit_shape_to_landmarks_linear_multi cramer_solve ex_model [ex_cam] [[(2, 0)]] [[0]] [] 3
     None None None = Inl (OutOfBounds Base_face_list)"
proof -
  have "image_loop ex_model 1 [ex_cam] [[(2, 0)]] [[0]] [] 1 0 (initial_state 1 1)
      = Inl (OutOfBounds Base_face_list)"
    by (subst image_loop.simps) (simp add: process_image_def)
  then show ?thesis
    by (intro fit_image_loop_Inl) (simp_all add: num_coeffs_def ex_model_sel)
qed

subsection \<open>C10\<close>

text \<open>
  C10. A call returns a coefficient vector only if \<open>base_face\<close> has at least one entry per
  image; and a call with at least one image, per-image lists of one length, matching counts
  in the first image and the empty \<open>base_face\<close> list reads \<open>base_face[0]\<close> outside the vector.
\<close>
theorem base_face_needs_an_entry_per_image:
  "(fit_shape_to_landmarks_linear_multi solve mm cams lms vids bases lambda ncf dsd msd = Inr c
      \<longrightarrow> length cams \<le> length bases) \<and>
   (length cams = length lms \<and> length lms = length vids \<and> 0 < length cams \<and>
    length (lms ! 0) = length (vids ! 0) \<longrightarrow>
      fit_shape_to_landmarks_linear_multi solve mm cams lms vids [] lambda ncf dsd msd
        = Inl (OutOfBounds Base_face_list))"
proof (intro conjI impI)
  assume "fit_shape_to_landmarks_linear_multi solve mm cams lms vids bases lambda ncf dsd msd = Inr c"
  from fit_InrD [OF this] show "length cams \<le> length bases" by blast
next
  assume a: "length cams = length lms \<and> length lms = length vids \<and> 0 < length cams \<and>
    length (lms ! 0) = length (vids ! 0)"
  then have "image_loop mm (num_coeffs mm ncf) cams lms vids [] (length cams) 0
      (initial_state (num_coeffs mm ncf) (sum_list (map length lms)))
      = Inl (OutOfBounds Base_face_list)"
    by (subst image_loop.simps) (auto simp: process_image_def)
  with a show "fit_shape_to_landmarks_linear_multi solve mm cams lms vids [] lambda ncf dsd msd
        = Inl (OutOfBounds Base_face_list)"
    by (intro fit_image_loop_Inl) simp_all
qed

theorem base_face_needs_an_entry_per_image_witness:
  "(fit_shape_to_landmarks_linear_multi cramer_solve ex_flat_model [ex_cam] [[(2, 0)]] [[0]] [[]] 0
      None None None = Inr [0] \<and> length [ex_cam] \<le> length [[] :: VectorXf]) \<and>
   (length [ex_cam] = length [[(2 :: real, 0 :: real)]] \<and>
    length [[(2 :: real, 0 :: real)]] = length [[0 :: nat]] \<and> 0 < length [ex_cam] \<and>
    length ([[(2 :: real, 0 :: real)]] ! 0) = length ([[0 :: nat]] ! 0) \<and>
    fit_shape_to_landmarks_linear_multi cramer_solve ex_flat_model [ex_cam] [[(2, 0)]] [[0]] [] 0
      None None None = Inl (OutOfBounds Base_face_list))"
proof -
  have r: "fit_shape_to_landmarks_linear_multi cramer_solve ex_flat_model [ex_cam] [[(2, 0)]]
      [[0]] [[]] 0 None None None = Inr [0]"
    by (simp add: fit_closed [OF ex_flat_call_ok] ex_flat_system ex_flat_system_rhs)
  note t = base_face_needs_an_entry_per_image [of cramer_solve ex_flat_model "[ex_cam]"
      "[[(2, 0)]]" "[[0]]" _ 0 None None None]
  from t [of "[[]]" "[0]"] r have 1: "length [ex_cam] \<le> length [[] :: VectorXf]" by blast
  from t [of "[[]]" "[0]"] have 2: "fit_shape_to_landmarks_linear_multi cramer_solve ex_flat_model
      [ex_cam] [[(2, 0)]] [[0]] [] 0 None None None = Inl (OutOfBounds Base_face_list)"
    by simp
  from r 1 2 show ?thesis by simp
qed

end
